theory Spec2Isabelle
  imports Complex_Main
begin

section \<open>JavaScript values\<close>

text \<open>
  The dashboard page \<^verbatim>\<open>frontend/src/pages/Index.tsx\<close> receives JSON over a WebSocket
  and folds it into React state.  A JavaScript number is an IEEE double: the finite ones
  are modelled by the real they denote (rounding, the sign of zero and overflow of a
  finite operation are not modelled), the three others are constructors of their own.
\<close>

datatype jsnum = Fin real | PInf | NInf | NaN

datatype jsval =
    JUndefined
  | JNull
  | JBool bool
  | JNum jsnum
  | JStr string
  | JArr "jsval list"
  | JObj "(string \<times> jsval) list"

fun isFinite :: "jsnum \<Rightarrow> bool" where
  "isFinite (Fin r) = True"
| "isFinite PInf = False"
| "isFinite NInf = False"
| "isFinite NaN = False"

fun num_neg :: "jsnum \<Rightarrow> jsnum" where
  "num_neg (Fin r) = Fin (- r)"
| "num_neg PInf = NInf"
| "num_neg NInf = PInf"
| "num_neg NaN = NaN"

fun num_add :: "jsnum \<Rightarrow> jsnum \<Rightarrow> jsnum" where
  "num_add NaN b = NaN"
| "num_add a NaN = NaN"
| "num_add (Fin x) (Fin y) = Fin (x + y)"
| "num_add (Fin x) PInf = PInf"
| "num_add (Fin x) NInf = NInf"
| "num_add PInf (Fin y) = PInf"
| "num_add NInf (Fin y) = NInf"
| "num_add PInf PInf = PInf"
| "num_add NInf NInf = NInf"
| "num_add PInf NInf = NaN"
| "num_add NInf PInf = NaN"

definition num_sub :: "jsnum \<Rightarrow> jsnum \<Rightarrow> jsnum" where
  "num_sub a b = num_add a (num_neg b)"

text \<open>The sign of a number that is not NaN: \<open>-1\<close>, \<open>0\<close> or \<open>1\<close>.\<close>

fun num_sign :: "jsnum \<Rightarrow> int" where
  "num_sign (Fin r) = (if r < 0 then - 1 else if r = 0 then 0 else 1)"
| "num_sign PInf = 1"
| "num_sign NInf = - 1"
| "num_sign NaN = 0"

definition signed_inf :: "int \<Rightarrow> jsnum" where
  "signed_inf sg = (if sg < 0 then NInf else if sg = 0 then NaN else PInf)"

fun num_mul :: "jsnum \<Rightarrow> jsnum \<Rightarrow> jsnum" where
  "num_mul NaN b = NaN"
| "num_mul a NaN = NaN"
| "num_mul (Fin x) (Fin y) = Fin (x * y)"
| "num_mul a b = signed_inf (num_sign a * num_sign b)"

fun num_div :: "jsnum \<Rightarrow> jsnum \<Rightarrow> jsnum" where
  "num_div NaN b = NaN"
| "num_div a NaN = NaN"
| "num_div (Fin x) (Fin y) =
     (if y = 0 then signed_inf (num_sign (Fin x)) else Fin (x / y))"
| "num_div (Fin x) b = Fin 0"
| "num_div a (Fin y) = signed_inf (num_sign a * (if y < 0 then - 1 else 1))"
| "num_div a b = NaN"

fun num_abs :: "jsnum \<Rightarrow> jsnum" where
  "num_abs (Fin r) = Fin \<bar>r\<bar>"
| "num_abs PInf = PInf"
| "num_abs NInf = PInf"
| "num_abs NaN = NaN"

text \<open>\<open>a < b\<close> on numbers: false as soon as an operand is NaN.\<close>

fun num_lt :: "jsnum \<Rightarrow> jsnum \<Rightarrow> bool" where
  "num_lt NaN b = False"
| "num_lt a NaN = False"
| "num_lt (Fin x) (Fin y) = (x < y)"
| "num_lt (Fin x) PInf = True"
| "num_lt (Fin x) NInf = False"
| "num_lt PInf b = False"
| "num_lt NInf NInf = False"
| "num_lt NInf b = True"

definition num_gt :: "jsnum \<Rightarrow> jsnum \<Rightarrow> bool" where
  "num_gt a b = num_lt b a"

text \<open>\<open>Math.max\<close> and \<open>Math.min\<close> of two numbers: NaN as soon as an operand is NaN.\<close>

definition Math_max :: "jsnum \<Rightarrow> jsnum \<Rightarrow> jsnum" where
  "Math_max a b = (if a = NaN \<or> b = NaN then NaN else if num_lt a b then b else a)"

definition Math_min :: "jsnum \<Rightarrow> jsnum \<Rightarrow> jsnum" where
  "Math_min a b = (if a = NaN \<or> b = NaN then NaN else if num_lt b a then b else a)"

text \<open>Truthiness: \<open>undefined\<close>, \<open>null\<close>, \<open>false\<close>, \<open>0\<close>, \<open>NaN\<close> and \<open>""\<close> are falsy.\<close>

definition num_truthy :: "jsnum \<Rightarrow> bool" where
  "num_truthy n = (n \<noteq> NaN \<and> n \<noteq> Fin 0)"

fun truthy :: "jsval \<Rightarrow> bool" where
  "truthy JUndefined = False"
| "truthy JNull = False"
| "truthy (JBool b) = b"
| "truthy (JNum n) = num_truthy n"
| "truthy (JStr s) = (s \<noteq> [])"
| "truthy (JArr xs) = True"
| "truthy (JObj kvs) = True"

text \<open>\<open>a || b\<close> and \<open>a ?? b\<close>.\<close>

definition js_or :: "jsval \<Rightarrow> jsval \<Rightarrow> jsval" where
  "js_or a b = (if truthy a then a else b)"

definition nullish :: "jsval \<Rightarrow> jsval \<Rightarrow> jsval" where
  "nullish a b = (if a = JUndefined \<or> a = JNull then b else a)"

text \<open>
  \<open>v.k\<close> for one of the field names the page reads (\<open>type\<close>, \<open>data\<close>, \<open>symbol\<close>,
  \<open>price\<close>, ...): the own property of a parsed JSON object (\<open>JObj\<close> lists the
  properties, each key once), \<open>undefined\<close> when the object lacks it or when \<open>v\<close>
  is a primitive or an array.  Reading a property of
  \<open>null\<close> or \<open>undefined\<close> throws; the one place where that can happen is written
  out in \<open>onmessage\<close>.
\<close>

fun get_prop :: "jsval \<Rightarrow> string \<Rightarrow> jsval" where
  "get_prop (JObj kvs) k = (case map_of kvs k of None \<Rightarrow> JUndefined | Some v \<Rightarrow> v)"
| "get_prop v k = JUndefined"

fun is_number :: "jsval \<Rightarrow> bool" where
  "is_number (JNum n) = True"
| "is_number v = False"

text \<open>
  What the page leaves to the JavaScript runtime is a parameter of the model: the
  conversion of a value that is not a number, \<open>null\<close>, \<open>undefined\<close> or a boolean to
  a number (\<open>Number\<close> on strings and objects), the time value of \<open>new Date(v)\<close>
  (\<open>None\<close> for an invalid date), the property key of a value that is not a string,
  \<open>a + b\<close> when an operand is not a number, and the offset of local time from UTC in
  milliseconds.  The offset follows the rules of the time zone of the runtime, so it
  depends on the time: \<open>localTZA t True\<close> is the offset in force at the time value
  \<open>t\<close>, and \<open>localTZA t False\<close> is the offset that the runtime takes for the local
  time \<open>t\<close> (where the clocks are set back a local time occurs twice, and the
  runtime takes the offset of its first occurrence).  Every theorem holds for every
  such runtime.
\<close>

record host =
  Number_of :: "jsval \<Rightarrow> jsnum"
  Date_of :: "jsval \<Rightarrow> int option"
  key_of :: "jsval \<Rightarrow> string"
  plus_of :: "jsval \<Rightarrow> jsval \<Rightarrow> jsval"
  localTZA :: "int \<Rightarrow> bool \<Rightarrow> int"

fun ToNumber :: "host \<Rightarrow> jsval \<Rightarrow> jsnum" where
  "ToNumber h (JNum n) = n"
| "ToNumber h JUndefined = NaN"
| "ToNumber h JNull = Fin 0"
| "ToNumber h (JBool b) = Fin (if b then 1 else 0)"
| "ToNumber h v = Number_of h v"

fun js_add :: "host \<Rightarrow> jsval \<Rightarrow> jsval \<Rightarrow> jsval" where
  "js_add h (JNum a) (JNum b) = JNum (num_add a b)"
| "js_add h a b = plus_of h a b"

definition js_sub :: "host \<Rightarrow> jsval \<Rightarrow> jsval \<Rightarrow> jsnum" where
  "js_sub h a b = num_sub (ToNumber h a) (ToNumber h b)"

fun property_key :: "host \<Rightarrow> jsval \<Rightarrow> string" where
  "property_key h (JStr s) = s"
| "property_key h v = key_of h v"

section \<open>Timeframes\<close>

definition is_digit :: "char \<Rightarrow> bool" where
  "is_digit c = (c \<in> set ''0123456789'')"

definition is_alpha :: "char \<Rightarrow> bool" where
  "is_alpha c =
     (c \<in> set ''abcdefghijklmnopqrstuvwxyz'' \<or> c \<in> set ''ABCDEFGHIJKLMNOPQRSTUVWXYZ'')"

definition is_unit_char :: "char \<Rightarrow> bool" where
  "is_unit_char c = (c \<in> set ''smhdSMHD'')"

text \<open>The value of a decimal digit: its place in the string of the ten digits.\<close>

definition digit_val :: "char \<Rightarrow> nat" where
  "digit_val c = length (takeWhile (\<lambda>d. d \<noteq> c) ''0123456789'')"

text \<open>
  \<open>Number(s)\<close> for a string of decimal digits, as the natural number it writes.  A
  double is that number up to \<open>2^53\<close> and rounds it beyond; from
  \<open>2^1024 - 2^970\<close> on \<open>Number\<close> gives \<open>Infinity\<close> (\<open>overflows\<close>).
\<close>

definition digits_to_nat :: "string \<Rightarrow> nat" where
  "digits_to_nat ds = foldl (\<lambda>a c. 10 * a + digit_val c) 0 ds"

definition overflows :: "nat \<Rightarrow> bool" where
  "overflows n = (n \<ge> 2 ^ 1024 - 2 ^ 970)"

text \<open>
  \<open>tf.match(/(\d+)([smhd])/i)\<close>: the regular expression is tried at each position
  from the left; at a position it takes the whole run of digits and then needs one of
  the four unit letters (giving digits back leaves a digit where the letter is needed).
  The result is the pair of the two groups.
\<close>

fun match_ms :: "string \<Rightarrow> (string \<times> char) option" where
  "match_ms [] = None"
| "match_ms (c # cs) =
     (let ds = takeWhile is_digit (c # cs); rest = dropWhile is_digit (c # cs)
      in if ds \<noteq> [] \<and> rest \<noteq> [] \<and> is_unit_char (hd rest) then Some (ds, hd rest)
         else match_ms cs)"

definition lower_unit :: "char \<Rightarrow> char" where
  "lower_unit c =
     (if c = CHR ''S'' then CHR ''s'' else if c = CHR ''M'' then CHR ''m''
      else if c = CHR ''H'' then CHR ''h'' else if c = CHR ''D'' then CHR ''d'' else c)"

definition unitMap :: "char \<Rightarrow> nat" where
  "unitMap u =
     (if u = CHR ''s'' then 1000 else if u = CHR ''m'' then 60 * 1000
      else if u = CHR ''h'' then 60 * 60 * 1000 else 24 * 60 * 60 * 1000)"

text \<open>
  \<open>timeframeToMs\<close>, with the duration as a natural number (the rounding and the
  overflow of a duration of more than fifteen digits are not modelled here).
\<close>

definition timeframeToMs :: "string \<Rightarrow> nat option" where
  "timeframeToMs tf =
     (case match_ms tf of
        None \<Rightarrow> None
      | Some (ds, u) \<Rightarrow> Some (digits_to_nat ds * unitMap (lower_unit u)))"

definition DEFAULT_CANDLE_LOOKBACK :: nat where
  "DEFAULT_CANDLE_LOOKBACK = 480"

definition MAX_LOOKBACK_WINDOW_MS :: nat where
  "MAX_LOOKBACK_WINDOW_MS = 14 * 24 * 60 * 60 * 1000"

definition getLookbackDurationMs :: "string \<Rightarrow> nat option" where
  "getLookbackDurationMs tf =
     (case timeframeToMs tf of
        None \<Rightarrow> None
      | Some intervalMs \<Rightarrow>
          if intervalMs = 0 then None
          else Some (min (intervalMs * DEFAULT_CANDLE_LOOKBACK) MAX_LOOKBACK_WINDOW_MS))"

section \<open>Dates\<close>

text \<open>
  A \<open>Date\<close> is its time value: milliseconds since the epoch, or \<open>None\<close> for an
  invalid date.  The setters are those of ECMAScript: they rebuild the time value from
  its day and its time within the day and clip it to the range of valid dates.
\<close>

definition msPerDay :: int where "msPerDay = 86400000"
definition msPerHour :: int where "msPerHour = 3600000"
definition msPerMinute :: int where "msPerMinute = 60000"
definition msPerSecond :: int where "msPerSecond = 1000"

definition Day :: "int \<Rightarrow> int" where "Day t = t div msPerDay"
definition HourFromTime :: "int \<Rightarrow> int" where "HourFromTime t = (t div msPerHour) mod 24"
definition MinFromTime :: "int \<Rightarrow> int" where "MinFromTime t = (t div msPerMinute) mod 60"
definition SecFromTime :: "int \<Rightarrow> int" where "SecFromTime t = (t div msPerSecond) mod 60"
definition msFromTime :: "int \<Rightarrow> int" where "msFromTime t = t mod msPerSecond"

definition MakeTime :: "int \<Rightarrow> int \<Rightarrow> int \<Rightarrow> int \<Rightarrow> int" where
  "MakeTime hr mi sec ms = hr * msPerHour + mi * msPerMinute + sec * msPerSecond + ms"

definition MakeDate :: "int \<Rightarrow> int \<Rightarrow> int" where
  "MakeDate dy tm = dy * msPerDay + tm"

definition TimeClip :: "int \<Rightarrow> int option" where
  "TimeClip t = (if \<bar>t\<bar> > 8640000000000000 then None else Some t)"

definition setUTCMilliseconds :: "int \<Rightarrow> int \<Rightarrow> int option" where
  "setUTCMilliseconds ms t =
     TimeClip (MakeDate (Day t) (MakeTime (HourFromTime t) (MinFromTime t) (SecFromTime t) ms))"

definition setUTCSeconds :: "int \<Rightarrow> int \<Rightarrow> int \<Rightarrow> int option" where
  "setUTCSeconds sec ms t =
     TimeClip (MakeDate (Day t) (MakeTime (HourFromTime t) (MinFromTime t) sec ms))"

definition setUTCMinutes :: "int \<Rightarrow> int \<Rightarrow> int option" where
  "setUTCMinutes mi t =
     TimeClip (MakeDate (Day t) (MakeTime (HourFromTime t) mi (SecFromTime t) (msFromTime t)))"

definition setUTCHours :: "int \<Rightarrow> int \<Rightarrow> int option" where
  "setUTCHours hr t =
     TimeClip (MakeDate (Day t) (MakeTime hr (MinFromTime t) (SecFromTime t) (msFromTime t)))"

text \<open>
  \<open>setSeconds\<close> works on local time: the time value is taken to local time with the
  offset in force at it (\<open>LocalTime\<close>), rebuilt there, and the result is taken back
  with the offset that the zone has for that local time (\<open>UTC\<close>).  The two offsets
  differ when the rebuilt local time lies across a change of the clocks, or in an hour
  that the clocks repeat.
\<close>

definition LocalTime :: "(int \<Rightarrow> bool \<Rightarrow> int) \<Rightarrow> int \<Rightarrow> int" where
  "LocalTime tza t = t + tza t True"

definition UTC :: "(int \<Rightarrow> bool \<Rightarrow> int) \<Rightarrow> int \<Rightarrow> int" where
  "UTC tza t = t - tza t False"

definition setSeconds :: "(int \<Rightarrow> bool \<Rightarrow> int) \<Rightarrow> int \<Rightarrow> int \<Rightarrow> int \<Rightarrow> int option" where
  "setSeconds tza sec ms t =
     (let lt = LocalTime tza t
      in TimeClip
           (UTC tza (MakeDate (Day lt) (MakeTime (HourFromTime lt) (MinFromTime lt) sec ms))))"

text \<open>
  \<open>Math.floor(x / size) * size\<close> for a date component \<open>x\<close> (between 0 and 59) and a
  magnitude \<open>sz\<close> read from the timeframe: NaN, here \<open>None\<close>, when the magnitude is zero
  (\<open>x / 0\<close> is \<open>Infinity\<close> or NaN and its product with 0 is NaN) and when it
  overflows (\<open>x / Infinity\<close> is 0 and its product with \<open>Infinity\<close> is NaN).  A
  rounded magnitude is beyond 59, where the result is 0 as for the magnitude itself.
\<close>

definition floor_to :: "int \<Rightarrow> nat \<Rightarrow> int option" where
  "floor_to x sz =
     (if sz = 0 \<or> overflows sz then None else Some ((x div int sz) * int sz))"

text \<open>
  \<open>tf.match(/(\d+)([a-zA-Z]+)/)\<close>: at the leftmost position where a run of digits is
  followed by a letter, the run of digits and the run of letters after it.
\<close>

fun match_bucket :: "string \<Rightarrow> (string \<times> string) option" where
  "match_bucket [] = None"
| "match_bucket (c # cs) =
     (let ds = takeWhile is_digit (c # cs);
          us = takeWhile is_alpha (dropWhile is_digit (c # cs))
      in if ds \<noteq> [] \<and> us \<noteq> [] then Some (ds, us) else match_bucket cs)"

text \<open>
  \<open>getBucketedTimestamp(date, tf)\<close>, for the offsets \<open>tza\<close> of the runtime's local
  time.  The result is \<open>bucket.toISOString()\<close>, which
  throws a \<open>RangeError\<close> on an invalid date (\<open>None\<close>) and otherwise prints the time
  value in the one canonical UTC format; the model keeps the time value itself, so
  that equality of two such strings is equality of the time values and
  \<open>new Date(s).getTime()\<close> reads the time value back.
\<close>

definition getBucketedTimestamp ::
  "(int \<Rightarrow> bool \<Rightarrow> int) \<Rightarrow> int option \<Rightarrow> string \<Rightarrow> int option" where
  "getBucketedTimestamp tza date tf =
     (case Option.bind date (setUTCMilliseconds 0) of
        None \<Rightarrow> None
      | Some b0 \<Rightarrow>
          if tf = ''live'' then setUTCSeconds (SecFromTime b0) 0 b0
          else
            (case match_bucket tf of
               None \<Rightarrow> setSeconds tza 0 0 b0
             | Some (sizeStr, unit) \<Rightarrow>
                 (let sz = digits_to_nat sizeStr
                  in if unit = ''s'' then
                       (case floor_to (SecFromTime b0) sz of
                          None \<Rightarrow> None
                        | Some seconds \<Rightarrow> setUTCSeconds seconds 0 b0)
                     else if unit = ''m'' then
                       (case floor_to (MinFromTime b0) sz of
                          None \<Rightarrow> None
                        | Some minutes \<Rightarrow>
                            Option.bind (setUTCSeconds 0 0 b0) (setUTCMinutes minutes))
                     else if unit = ''h'' then
                       (case floor_to (HourFromTime b0) sz of
                          None \<Rightarrow> None
                        | Some hours \<Rightarrow>
                            Option.bind
                              (Option.bind (setUTCSeconds 0 0 b0) (setUTCMinutes 0))
                              (setUTCHours hours))
                     else setUTCSeconds 0 0 b0)))"

section \<open>Session state\<close>

text \<open>
  The records follow the TypeScript types of the page.  The \<open>ts\<close> of a candle is an
  ISO string that \<open>toISOString\<close> produced (from a tick's bucket, or from
  \<open>new Date(candle.ts).toISOString()\<close> when history seeds the store), kept as its time
  value; its prices are numbers; its volume is read as \<open>last.volume || 0\<close>, so it is
  kept as the value it is.  In a pending update the quantity and \<open>ts\<close> are whatever
  the message carried.  The fields of a ticker snapshot are kept as the values that
  were stored (TypeScript's \<open>number\<close> is not checked when the page runs), so that
  a field being a number is a property of the code and not of the model.  The field
  \<open>volume\<close> of a ticker snapshot is \<open>volume24\<close> here, \<open>open\<close> of a candle is
  \<open>open'\<close> and \<open>ts\<close> of a pending update is \<open>tick_ts\<close>.
\<close>

record candle =
  ts :: int
  open' :: jsnum
  high :: jsnum
  low :: jsnum
  close :: jsnum
  volume :: jsval

record pending_update =
  price :: jsnum
  qty :: jsval
  tick_ts :: jsval
  time :: "int option"

record ticker =
  priceChange :: jsval
  priceChangePercent :: jsval
  lastPrice :: jsval
  openPrice :: jsval
  highPrice :: jsval
  lowPrice :: jsval
  volume24 :: jsval
  quoteVolume :: jsval

text \<open>
  The state of the component: what \<open>useState\<close> holds and what the refs hold.  The
  objects used as dictionaries are maps from the symbol; \<open>analyticsData\<close> is the
  payload as received, \<open>JNull\<close> when absent.
\<close>

record state =
  isStreaming :: bool
  tickCount :: nat
  selectedSymbols :: "string list"
  timeframe :: string
  rollingWindow :: nat
  regressionType :: string
  priceData :: "string \<rightharpoonup> candle list"
  analyticsData :: jsval
  tickerData :: "string \<rightharpoonup> ticker"
  tickCounterRef :: nat
  lastTickUpdateRef :: int
  lastPriceUpdateRef :: "string \<rightharpoonup> int"
  pendingUpdatesRef :: "string \<rightharpoonup> pending_update"

definition PRICE_UPDATE_THROTTLE_MS :: int where
  "PRICE_UPDATE_THROTTLE_MS = 100"

section \<open>The candle store\<close>

text \<open>\<open>Math.ceil(a / b)\<close> for natural numbers with \<open>b\<close> positive.\<close>

definition ceil_div :: "nat \<Rightarrow> nat \<Rightarrow> nat" where
  "ceil_div a b = (a + b - 1) div b"

definition maxCandles :: "string \<Rightarrow> nat" where
  "maxCandles tf =
     (case timeframeToMs tf of
        None \<Rightarrow> DEFAULT_CANDLE_LOOKBACK
      | Some tfMs \<Rightarrow>
          (case getLookbackDurationMs tf of
             None \<Rightarrow> DEFAULT_CANDLE_LOOKBACK
           | Some lookbackMs \<Rightarrow>
               if tfMs \<noteq> 0 \<and> lookbackMs \<noteq> 0 then ceil_div lookbackMs tfMs + 5
               else DEFAULT_CANDLE_LOOKBACK))"

text \<open>\<open>xs.slice(-n)\<close>: the last \<open>n\<close> elements, and all of them for \<open>n = 0\<close>.\<close>

definition slice_last :: "nat \<Rightarrow> 'a list \<Rightarrow> 'a list" where
  "slice_last n xs = (if n = 0 then xs else drop (length xs - n) xs)"

definition new_candle :: "int \<Rightarrow> pending_update \<Rightarrow> candle" where
  "new_candle bucketTs pendingUpdate =
     \<lparr>ts = bucketTs, open' = price pendingUpdate, high = price pendingUpdate,
      low = price pendingUpdate, close = price pendingUpdate, volume = qty pendingUpdate\<rparr>"

definition updatedLast :: "host \<Rightarrow> pending_update \<Rightarrow> candle \<Rightarrow> candle" where
  "updatedLast h pendingUpdate lst =
     lst\<lparr>close := price pendingUpdate,
         high := Math_max (high lst) (price pendingUpdate),
         low := Math_min (low lst) (price pendingUpdate),
         volume := js_add h (js_or (volume lst) (JNum (Fin 0))) (qty pendingUpdate)\<rparr>"

text \<open>The four flags of the same-bucket branch; the update is kept when one holds.\<close>

definition meaningful_change :: "host \<Rightarrow> candle \<Rightarrow> candle \<Rightarrow> bool" where
  "meaningful_change h upd lst =
     (let priceThreshold = Math_max (num_mul (close lst) (Fin 0.000001)) (Fin 0.001);
          volumeThreshold = Fin 0.0001;
          closeChanged = num_gt (num_abs (num_sub (close upd) (close lst))) priceThreshold;
          highChanged = num_gt (num_abs (num_sub (high upd) (high lst))) priceThreshold;
          lowChanged = num_gt (num_abs (num_sub (low upd) (low lst))) priceThreshold;
          volumeChanged =
            num_gt (num_abs (js_sub h (volume upd) (volume lst))) volumeThreshold
      in closeChanged \<or> highChanged \<or> lowChanged \<or> volumeChanged)"

text \<open>
  The updater passed to \<open>setPriceData\<close> for the symbol \<open>tickSymbol\<close>, the bucket
  \<open>bucketTs\<close> and the pending update; \<open>tf\<close> is the effective timeframe.
  \<open>symbolData_of\<close> is \<open>prev[tickSymbol] || []\<close>.
\<close>

definition symbolData_of :: "(string \<rightharpoonup> candle list) \<Rightarrow> string \<Rightarrow> candle list" where
  "symbolData_of prev tickSymbol = (case prev tickSymbol of None \<Rightarrow> [] | Some cs \<Rightarrow> cs)"

definition setPriceData_updater ::
  "host \<Rightarrow> string \<Rightarrow> string \<Rightarrow> int \<Rightarrow> pending_update \<Rightarrow>
   (string \<rightharpoonup> candle list) \<Rightarrow> (string \<rightharpoonup> candle list)" where
  "setPriceData_updater h tf tickSymbol bucketTs pendingUpdate prev =
     (let symbolData = symbolData_of prev tickSymbol
      in if length symbolData > 0 then
           (let lst = symbolData ! (length symbolData - 1)
            in if ts lst = bucketTs then
                 (let upd = updatedLast h pendingUpdate lst
                  in if \<not> meaningful_change h upd lst then prev
                     else prev(tickSymbol \<mapsto> symbolData[length symbolData - 1 := upd]))
               else if bucketTs > ts lst then
                 prev(tickSymbol \<mapsto>
                   sort_key ts
                     (slice_last (maxCandles tf)
                        (symbolData @ [new_candle bucketTs pendingUpdate])))
               else prev)
         else prev(tickSymbol \<mapsto> [new_candle bucketTs pendingUpdate]))"

section \<open>Trade and tick messages\<close>

text \<open>
  The updater passed to \<open>setTickerData\<close> when a trade is accepted; \<open>tickPrice\<close> is
  a number there.  The subtraction, the division and \<open>Math.max\<close> convert what the
  stored snapshot holds to a number.
\<close>

definition trade_ticker_updater ::
  "host \<Rightarrow> string \<Rightarrow> jsnum \<Rightarrow> (string \<rightharpoonup> ticker) \<Rightarrow> (string \<rightharpoonup> ticker)" where
  "trade_ticker_updater h tickSymbol tickPrice prev =
     (let fresh = prev(tickSymbol \<mapsto>
            \<lparr>priceChange = JNum (Fin 0), priceChangePercent = JNum (Fin 0),
             lastPrice = JNum tickPrice, openPrice = JNum tickPrice,
             highPrice = JNum tickPrice, lowPrice = JNum tickPrice,
             volume24 = JNum (Fin 0), quoteVolume = JNum (Fin 0)\<rparr>)
      in case prev tickSymbol of
           None \<Rightarrow> fresh
         | Some existing \<Rightarrow>
             if truthy (openPrice existing) then
               (let pc = js_sub h (JNum tickPrice) (openPrice existing);
                    pcp = num_mul (num_div pc (ToNumber h (openPrice existing))) (Fin 100)
                in prev(tickSymbol \<mapsto>
                     existing\<lparr>lastPrice := JNum tickPrice, priceChange := JNum pc,
                       priceChangePercent := JNum pcp,
                       highPrice :=
                         JNum (Math_max
                                 (ToNumber h (js_or (highPrice existing) (JNum tickPrice)))
                                 tickPrice),
                       lowPrice :=
                         JNum (Math_min
                                 (ToNumber h (js_or (lowPrice existing) (JNum tickPrice)))
                                 tickPrice)\<rparr>))
             else fresh)"

text \<open>What a trade message is read as: \<open>tick\<close>, \<open>tickSymbol\<close> and \<open>tickPrice\<close>.\<close>

definition tick_of :: "jsval \<Rightarrow> jsval" where
  "tick_of message = js_or (get_prop message ''data'') message"

definition tickSymbol_of :: "jsval \<Rightarrow> jsval" where
  "tickSymbol_of message =
     js_or (get_prop (tick_of message) ''symbol'') (get_prop message ''symbol'')"

definition tickPrice_of :: "jsval \<Rightarrow> jsval" where
  "tickPrice_of message =
     js_or (get_prop (tick_of message) ''price'') (get_prop message ''price'')"

definition tickQty_of :: "jsval \<Rightarrow> jsval" where
  "tickQty_of message =
     js_or (js_or (get_prop (tick_of message) ''qty'') (get_prop message ''qty''))
       (JNum (Fin 0))"

definition tickTs_of :: "jsval \<Rightarrow> jsval" where
  "tickTs_of message = js_or (get_prop (tick_of message) ''ts'') (get_prop message ''ts'')"

text \<open>
  How the handling of a trade message ends: dropped by a check before anything is
  written; accepted and held back by the throttle; accepted and passed to the candle
  store, with the update and its bucket; accepted and ended by the \<open>RangeError\<close> of
  \<open>toISOString\<close> on an invalid date, which the handler's \<open>catch\<close> logs.
\<close>

datatype outcome =
    Dropped
  | Throttled string
  | Flushed string pending_update int
  | Threw string
  | Other

text \<open>
  The tick counter: the ref counts every accepted tick, the displayed \<open>tickCount\<close>
  follows it when more than 100 ms passed since it was last set.
\<close>

definition count_tick :: "int \<Rightarrow> state \<Rightarrow> state" where
  "count_tick now s =
     (let s1 = s\<lparr>tickCounterRef := tickCounterRef s + 1\<rparr>
      in if now - lastTickUpdateRef s1 > 100
         then s1\<lparr>tickCount := tickCounterRef s1, lastTickUpdateRef := now\<rparr>
         else s1)"

text \<open>The pending update written for a tick.\<close>

definition pending_of :: "host \<Rightarrow> jsval \<Rightarrow> jsnum \<Rightarrow> pending_update" where
  "pending_of h message tickPrice =
     (let tickQty = tickQty_of message;
          tickTs = tickTs_of message;
          tickTime = Date_of h tickTs
      in \<lparr>price = tickPrice, qty = tickQty, tick_ts = tickTs, time = tickTime\<rparr>)"

text \<open>\<open>timeframe || '1m'\<close>.\<close>

definition effectiveTimeframe :: "state \<Rightarrow> string" where
  "effectiveTimeframe s = (if timeframe s = [] then ''1m'' else timeframe s)"

text \<open>
  The part of the handler after the two checks, for the symbol and price they let
  through; \<open>now\<close> is the reading of \<open>Date.now()\<close>.  The ticker snapshot and the
  pending slot are written for every accepted tick; the throttle then decides whether
  the pending slot goes to the candle store.
\<close>

definition accept_tick ::
  "host \<Rightarrow> int \<Rightarrow> jsval \<Rightarrow> string \<Rightarrow> jsnum \<Rightarrow> state \<Rightarrow> outcome \<times> state" where
  "accept_tick h now message tickSymbol tickPrice s =
     (let s2 = count_tick now s;
          s3 = s2\<lparr>tickerData := trade_ticker_updater h tickSymbol tickPrice (tickerData s2)\<rparr>;
          lastUpdate = (case lastPriceUpdateRef s3 tickSymbol of None \<Rightarrow> 0 | Some t \<Rightarrow> t);
          s4 = s3\<lparr>pendingUpdatesRef :=
                 (pendingUpdatesRef s3)(tickSymbol \<mapsto> pending_of h message tickPrice)\<rparr>
      in if now - lastUpdate < PRICE_UPDATE_THROTTLE_MS then (Throttled tickSymbol, s4)
         else
           (case pendingUpdatesRef s4 tickSymbol of
              None \<Rightarrow> (Throttled tickSymbol, s4)
            | Some pendingUpdate \<Rightarrow>
                (let s5 = s4\<lparr>lastPriceUpdateRef :=
                            (lastPriceUpdateRef s4)(tickSymbol \<mapsto> now)\<rparr>
                 in case getBucketedTimestamp (localTZA h) (time pendingUpdate)
                           (effectiveTimeframe s) of
                      None \<Rightarrow> (Threw tickSymbol, s5)
                    | Some bucketTs \<Rightarrow>
                        (Flushed tickSymbol pendingUpdate bucketTs,
                         s5\<lparr>priceData :=
                              setPriceData_updater h (effectiveTimeframe s) tickSymbol
                                bucketTs pendingUpdate (priceData s5)\<rparr>))))"

text \<open>
  The branch for \<open>message.type === 'trade' || message.type === 'tick'\<close>.
  \<open>selectedSymbols.includes(tickSymbol)\<close> compares without conversion, so only a
  string can be found in the list of symbols.
\<close>

definition on_trade :: "host \<Rightarrow> int \<Rightarrow> jsval \<Rightarrow> state \<Rightarrow> outcome \<times> state" where
  "on_trade h now message s =
     (let tickSymbol = tickSymbol_of message; tickPrice = tickPrice_of message
      in if \<not> truthy tickSymbol \<or> \<not> is_number tickPrice then (Dropped, s)
         else if tickSymbol \<notin> set (map JStr (selectedSymbols s)) then (Dropped, s)
         else
           (case (tickSymbol, tickPrice) of
              (JStr symbol, JNum p) \<Rightarrow> accept_tick h now message symbol p s
            | _ \<Rightarrow> (Dropped, s)))"

section \<open>Ticker messages\<close>

text \<open>
  \<open>resolveNumber(value, fallback = 0)\<close>: the default applies when the argument is
  \<open>undefined\<close>.  A value of type number is returned as it is.
\<close>

definition resolveNumber :: "host \<Rightarrow> jsval \<Rightarrow> jsval \<Rightarrow> jsval" where
  "resolveNumber h v fallback =
     (if is_number v then v
      else
        (let fb = (if fallback = JUndefined then JNum (Fin 0) else fallback);
             parsed = ToNumber h (nullish v (nullish fb (JNum (Fin 0))))
         in if isFinite parsed then JNum parsed else JNum (Fin 0)))"

definition newTickerData :: "host \<Rightarrow> jsval \<Rightarrow> ticker" where
  "newTickerData h message =
     (let tk = js_or (get_prop message ''data'') message;
          field = (\<lambda>k. resolveNumber h (get_prop tk k) (get_prop message k))
      in \<lparr>priceChange = field ''priceChange'',
          priceChangePercent = field ''priceChangePercent'',
          lastPrice = field ''lastPrice'',
          openPrice = field ''openPrice'',
          highPrice = field ''highPrice'',
          lowPrice = field ''lowPrice'',
          volume24 = field ''volume'',
          quoteVolume = field ''quoteVolume''\<rparr>)"

definition tickerSymbol_of :: "jsval \<Rightarrow> jsval" where
  "tickerSymbol_of message =
     js_or (get_prop (js_or (get_prop message ''data'') message) ''symbol'')
       (get_prop message ''symbol'')"

text \<open>The updater passed to \<open>setTickerData\<close> for a ticker message.\<close>

definition ticker_updater ::
  "host \<Rightarrow> string \<Rightarrow> ticker \<Rightarrow> (string \<rightharpoonup> ticker) \<Rightarrow> (string \<rightharpoonup> ticker)" where
  "ticker_updater h key new prev =
     (case prev key of
        None \<Rightarrow> prev(key \<mapsto> new)
      | Some existing \<Rightarrow>
          if num_lt (num_abs (js_sub h (lastPrice existing) (lastPrice new))) (Fin 0.01) \<and>
             num_lt (num_abs (js_sub h (priceChangePercent existing) (priceChangePercent new)))
               (Fin 0.01)
          then prev
          else prev(key \<mapsto> new))"

definition on_ticker :: "host \<Rightarrow> jsval \<Rightarrow> state \<Rightarrow> state" where
  "on_ticker h message s =
     (let tickerSymbol = tickerSymbol_of message
      in if truthy tickerSymbol then
           s\<lparr>tickerData :=
               ticker_updater h (property_key h tickerSymbol) (newTickerData h message)
                 (tickerData s)\<rparr>
         else s)"

section \<open>The message handler\<close>

text \<open>
  \<open>ws.onmessage\<close> on a parsed message, at the clock reading \<open>now\<close>.  Reading
  \<open>message.type\<close> of \<open>null\<close> throws, and the handler's \<open>catch\<close> leaves the state as
  it is; so does a message that fails to parse.  The \<open>alert\<close> and \<open>subscription\<close>
  branches show a toast and write no state.
\<close>

definition onmessage :: "host \<Rightarrow> int \<Rightarrow> jsval \<Rightarrow> state \<Rightarrow> outcome \<times> state" where
  "onmessage h now message s =
     (if message = JNull \<or> message = JUndefined then (Other, s)
      else
        (let ty = get_prop message ''type''
         in if ty = JStr ''trade'' \<or> ty = JStr ''tick'' then on_trade h now message s
            else if ty = JStr ''ticker'' then (Other, on_ticker h message s)
            else if ty = JStr ''analytics'' then
              (Other, s\<lparr>analyticsData := js_or (get_prop message ''data'') message\<rparr>)
            else (Other, s)))"

text \<open>A run of the handler over the messages of a connection, in arrival order.\<close>

fun run :: "host \<Rightarrow> state \<Rightarrow> (int \<times> jsval) list \<Rightarrow> outcome list \<times> state" where
  "run h s [] = ([], s)"
| "run h s ((now, message) # evs) =
     (let (out, s') = onmessage h now message s;
          (outs, s'') = run h s' evs
      in (out # outs, s''))"

text \<open>The updates passed to the candle store for one symbol, in order.\<close>

fun flushes :: "string \<Rightarrow> outcome list \<Rightarrow> pending_update list" where
  "flushes symbol [] = []"
| "flushes symbol (Flushed symbol' pu b # outs) =
     (if symbol' = symbol then pu # flushes symbol outs else flushes symbol outs)"
| "flushes symbol (out # outs) = flushes symbol outs"

section \<open>Start, stop and analytics\<close>

text \<open>
  \<open>handleStartStream\<close> and \<open>handleStopStream\<close>, after the request to the backend
  succeeded (\<open>ok\<close>) or failed.
\<close>

definition handleStartStream :: "bool \<Rightarrow> state \<Rightarrow> state" where
  "handleStartStream ok s =
     (if ok then
        s\<lparr>isStreaming := True, tickCount := 0, priceData := Map.empty,
          tickerData := Map.empty, analyticsData := JNull\<rparr>
      else s)"

definition handleStopStream :: "bool \<Rightarrow> state \<Rightarrow> state" where
  "handleStopStream ok s =
     (if ok then
        s\<lparr>isStreaming := False, priceData := Map.empty, tickerData := Map.empty,
          analyticsData := JNull\<rparr>
      else s)"

text \<open>
  The requests to the backend are asynchronous.  A function of the page tests and
  reads the values of the render that created it, its closure: \<open>r\<close> below is the
  state of that render.  Its request is then in flight, and when the request settles
  the answer is stored in the state that the component has by then, \<open>s\<close> below,
  whatever symbols are selected by then: nothing cancels a request in flight.

  \<open>getAnalytics(pair, timeframe, window, regression)\<close> is the backend: a request is
  its four arguments, and it resolves with the payload (\<open>Inr\<close>) or rejects
  (\<open>Inl\<close>).
\<close>

type_synonym analytics_request = "string \<times> string \<times> nat \<times> string"

type_synonym analytics_answer = "unit + jsval"

type_synonym analytics_api = "string \<Rightarrow> string \<Rightarrow> nat \<Rightarrow> string \<Rightarrow> analytics_answer"




definition fetchData_analytics_settled :: "analytics_answer \<Rightarrow> state \<Rightarrow> state" where
  "fetchData_analytics_settled answer s =
     (case answer of
        Inr analytics \<Rightarrow> s\<lparr>analyticsData := analytics\<rparr>
      | Inl e \<Rightarrow> s)"

text \<open>
  \<open>fetchAnalytics\<close>, called when the connection is set up and then every three
  seconds, is a closure of the render that set the connection up.  A call either makes
  a request and writes nothing, or makes none and clears the snapshot if the one of
  its render was not null; \<open>s\<close> is the state at the call.  When a request settles,
  the answer, or null, is stored in the state of that moment.
\<close>

definition fetchAnalytics_call :: "state \<Rightarrow> state \<Rightarrow> analytics_request option \<times> state" where
  "fetchAnalytics_call r s =
     (if length (selectedSymbols r) = 2 then
        (let pair = selectedSymbols r ! 0 @ ''-'' @ selectedSymbols r ! 1
         in (Some (pair, timeframe r, rollingWindow r, regressionType r), s))
      else if analyticsData r \<noteq> JNull then (None, s\<lparr>analyticsData := JNull\<rparr>)
      else (None, s))"

definition fetchAnalytics_settled :: "analytics_answer \<Rightarrow> state \<Rightarrow> state" where
  "fetchAnalytics_settled answer s =
     (case answer of
        Inr analytics \<Rightarrow>
          if truthy analytics then s\<lparr>analyticsData := analytics\<rparr>
          else s\<lparr>analyticsData := JNull\<rparr>
      | Inl e \<Rightarrow> s\<lparr>analyticsData := JNull\<rparr>)"

text \<open>The answer of a backend to a request.\<close>

definition answer_of :: "analytics_api \<Rightarrow> analytics_request \<Rightarrow> analytics_answer" where
  "answer_of getAnalytics rq =
     (case rq of (pair, tf, window, regression) \<Rightarrow> getAnalytics pair tf window regression)"

section \<open>Properties and examples: definitions\<close>


text \<open>
  The state of the component when it mounts, at the clock reading \<open>mounted\<close>: the
  initial values of \<open>useState\<close> and \<open>useRef\<close>.
\<close>

definition initial_state :: "int \<Rightarrow> state" where
  "initial_state mounted =
     \<lparr>isStreaming = False, tickCount = 0, selectedSymbols = [''BTCUSDT''],
      timeframe = ''1s'', rollingWindow = 20, regressionType = ''OLS'',
      priceData = Map.empty, analyticsData = JNull, tickerData = Map.empty,
      tickCounterRef = 0, lastTickUpdateRef = mounted,
      lastPriceUpdateRef = Map.empty, pendingUpdatesRef = Map.empty\<rparr>"

text \<open>
  A runtime for the examples, with UTC as local time.  On a number \<open>new Date\<close>
  takes the integral time value; no string or object converts to a number.
\<close>

definition no_offset :: "int \<Rightarrow> bool \<Rightarrow> int" where
  "no_offset t isUTC = 0"

definition example_host :: host where
  "example_host =
     \<lparr>Number_of = (\<lambda>v. NaN),
      Date_of = (\<lambda>v. case v of JNum (Fin r) \<Rightarrow> TimeClip \<lfloor>r\<rfloor> | _ \<Rightarrow> None),
      key_of = (\<lambda>v. []),
      plus_of = (\<lambda>a b. JUndefined),
      localTZA = no_offset\<rparr>"

text \<open>
  The offsets of New York around 5 November 2023, when the clocks went from 02:00
  (four hours behind UTC) back to 01:00 (five hours behind), at the time value
  1699164000000: the local times from 01:00 to 02:00 of that day occur twice, and
  the runtime reads them with the offset of the first occurrence.
\<close>

definition new_york :: "int \<Rightarrow> bool \<Rightarrow> int" where
  "new_york t isUTC =
     (if isUTC then (if t < 1699164000000 then - 14400000 else - 18000000)
      else (if t < 1699149600000 then - 14400000 else - 18000000))"

text \<open>
  A runtime that converts the strings \<open>"42.5"\<close> and \<open>"7"\<close> to the numbers they
  write and \<open>"1e999"\<close> to \<open>Infinity\<close>, as \<open>Number\<close> does.
\<close>

definition parsing_host :: host where
  "parsing_host =
     example_host\<lparr>Number_of :=
       (\<lambda>v. if v = JStr ''42.5'' then Fin 42.5 else if v = JStr ''7'' then Fin 7
            else if v = JStr ''1e999'' then PInf else NaN)\<rparr>"

text \<open>The message \<open>{type: 'trade', symbol, price, qty, ts}\<close>.\<close>

definition trade_message :: "string \<Rightarrow> jsnum \<Rightarrow> real \<Rightarrow> real \<Rightarrow> jsval" where
  "trade_message symbol p q t =
     JObj [(''type'', JStr ''trade''), (''symbol'', JStr symbol), (''price'', JNum p),
           (''qty'', JNum (Fin q)), (''ts'', JNum (Fin t))]"


definition minute_session :: state where
  "minute_session = (initial_state 0)\<lparr>isStreaming := True, timeframe := ''1m''\<rparr>"

text \<open>A one-minute session whose store holds the candle of minute 1.\<close>

definition late_state :: state where
  "late_state =
     minute_session\<lparr>priceData :=
       [''BTCUSDT'' \<mapsto>
          [\<lparr>ts = 60000, open' = Fin 101, high = Fin 101, low = Fin 101, close = Fin 101,
            volume = JNum (Fin 1)\<rparr>]]\<rparr>"

text \<open>A ticker snapshot whose eight fields are numbers, and a store of such snapshots.\<close>

definition numeric :: "ticker \<Rightarrow> bool" where
  "numeric t =
     (is_number (priceChange t) \<and> is_number (priceChangePercent t)
      \<and> is_number (lastPrice t) \<and> is_number (openPrice t) \<and> is_number (highPrice t)
      \<and> is_number (lowPrice t) \<and> is_number (volume24 t) \<and> is_number (quoteVolume t))"

definition tickers_numeric :: "(string \<rightharpoonup> ticker) \<Rightarrow> bool" where
  "tickers_numeric m = (\<forall>key t. m key = Some t \<longrightarrow> numeric t)"

text \<open>
  A ticker message that carries its fields in \<open>data\<close>: the last price as a string
  that writes a number, a percentage that overflows, an open price that is
  \<open>null\<close> with a fallback at the top level of the message, a volume that is not
  a number at all, and no other field.
\<close>

definition nested_ticker :: jsval where
  "nested_ticker =
     JObj [(''type'', JStr ''ticker''),
           (''data'', JObj [(''symbol'', JStr ''BTCUSDT''), (''lastPrice'', JStr ''42.5''),
                           (''priceChangePercent'', JStr ''1e999''), (''openPrice'', JNull),
                           (''volume'', JStr ''n/a''), (''highPrice'', JBool True)]),
           (''openPrice'', JStr ''7''), (''lowPrice'', JNum (Fin 3)),
           (''lastPrice'', JNum (Fin 1))]"

text \<open>A session that holds a ticker snapshot, and two ticker messages for it.\<close>

definition ticker_session :: state where
  "ticker_session =
     minute_session\<lparr>tickerData :=
       [''BTCUSDT'' \<mapsto>
          \<lparr>priceChange = JNum (Fin 1), priceChangePercent = JNum (Fin 1),
           lastPrice = JNum (Fin 100), openPrice = JNum (Fin 99),
           highPrice = JNum (Fin 101), lowPrice = JNum (Fin 98),
           volume24 = JNum (Fin 5), quoteVolume = JNum (Fin 500)\<rparr>]\<rparr>"

definition ticker_message :: "jsval \<Rightarrow> jsval \<Rightarrow> jsval" where
  "ticker_message lp vol =
     JObj [(''type'', JStr ''ticker''), (''symbol'', JStr ''BTCUSDT''),
           (''priceChange'', JNum (Fin 1)), (''priceChangePercent'', JNum (Fin 1)),
           (''lastPrice'', lp), (''openPrice'', JNum (Fin 99)),
           (''highPrice'', JNum (Fin 101)), (''lowPrice'', JNum (Fin 98)),
           (''volume'', vol), (''quoteVolume'', JNum (Fin 500))]"

text \<open>
  A backend that answers every analytics request with a snapshot naming the pair it
  was asked for, and a session like the component's first one, with one symbol.
\<close>

definition echo_analytics :: analytics_api where
  "echo_analytics pair tf window regression = Inr (JObj [(''pair'', JStr pair)])"

text \<open>
  A session that is stopped and started again: one tick is accepted, the stream is
  stopped, the stream is started, one more tick is accepted four seconds later.
\<close>

definition before_stop :: state where
  "before_stop =
     snd (onmessage example_host 1000 (trade_message ''BTCUSDT'' (Fin 100) 1 0) minute_session)"

definition restarted :: state where
  "restarted = handleStartStream True (handleStopStream True before_stop)"

definition after_restart :: state where
  "after_restart =
     snd (onmessage example_host 5000 (trade_message ''BTCUSDT'' (Fin 101) 1 4000) restarted)"

text \<open>
  A session with two symbols, and the state right after its selection went from two
  symbols to one while the snapshot of the pair was stored.
\<close>

definition pair_session :: state where
  "pair_session = minute_session\<lparr>selectedSymbols := [''BTCUSDT'', ''ETHUSDT'']\<rparr>"

definition after_deselect :: state where
  "after_deselect =
     minute_session\<lparr>analyticsData := JObj [(''pair'', JStr ''BTCUSDT-ETHUSDT'')]\<rparr>"

text \<open>A trade or tick message that names the symbol.\<close>

definition tick_for :: "string \<Rightarrow> jsval \<Rightarrow> bool" where
  "tick_for symbol message =
     ((get_prop message ''type'' = JStr ''trade'' \<or> get_prop message ''type'' = JStr ''tick'')
      \<and> tickSymbol_of message = JStr symbol)"

text \<open>
  A burst is a list of clock readings with messages in which the ticks of the symbol
  are less than one throttle interval apart from each other.
\<close>

definition burst :: "string \<Rightarrow> (int \<times> jsval) list \<Rightarrow> bool" where
  "burst symbol evs =
     (\<forall>(now, m) \<in> set evs. \<forall>(now', m') \<in> set evs.
        tick_for symbol m \<and> tick_for symbol m' \<longrightarrow> now' - now < PRICE_UPDATE_THROTTLE_MS)"

text \<open>
  Two ticks 50 ms apart, after a quiet time; and the same two followed by a third
  tick, 150 ms after the second.
\<close>

definition two_ticks :: "(int \<times> jsval) list" where
  "two_ticks =
     [(1000, trade_message ''BTCUSDT'' (Fin 100) 1 0),
      (1050, trade_message ''BTCUSDT'' (Fin 105) 2 50)]"

definition three_ticks :: "(int \<times> jsval) list" where
  "three_ticks = two_ticks @ [(1200, trade_message ''BTCUSDT'' (Fin 103) 4 200)]"



section \<open>Evaluation\<close>

lemmas date_defs =
  setUTCMilliseconds_def setUTCSeconds_def setUTCMinutes_def setUTCHours_def
  setSeconds_def LocalTime_def UTC_def no_offset_def TimeClip_def MakeDate_def
  MakeTime_def Day_def HourFromTime_def
  MinFromTime_def SecFromTime_def msFromTime_def msPerDay_def msPerHour_def
  msPerMinute_def msPerSecond_def

lemma small_magnitude: "n < 2 ^ 53 \<Longrightarrow> \<not> overflows n"
proof -
  have "(2::nat) ^ 53 + 2 ^ 970 \<le> 2 ^ 971" by simp
  also have "\<dots> \<le> 2 ^ 1024" by (rule power_increasing) simp_all
  finally have "(2::nat) ^ 53 \<le> 2 ^ 1024 - 2 ^ 970" by simp
  then show "n < 2 ^ 53 \<Longrightarrow> \<not> overflows n" by (simp add: overflows_def)
qed

lemmas bucket_defs =
  getBucketedTimestamp_def date_defs is_digit_def is_alpha_def digits_to_nat_def
  digit_val_def floor_to_def small_magnitude

lemmas message_defs =
  tick_of_def tickSymbol_of_def tickPrice_of_def tickQty_of_def tickTs_of_def
  js_or_def num_truthy_def

lemmas handler_defs =
  onmessage_def on_trade_def accept_tick_def count_tick_def pending_of_def
  effectiveTimeframe_def PRICE_UPDATE_THROTTLE_MS_def trade_ticker_updater_def Let_def

lemmas store_defs =
  setPriceData_updater_def symbolData_of_def new_candle_def updatedLast_def
  meaningful_change_def Math_max_def Math_min_def num_gt_def num_sub_def js_sub_def
  slice_last_def

lemmas example_defs =
  trade_message_def initial_state_def example_host_def minute_session_def


lemma maxCandles_pos: "0 < maxCandles tf"
  by (simp add: maxCandles_def DEFAULT_CANDLE_LOOKBACK_def split: option.splits)

section \<open>The candle store keeps its order\<close>


lemma sorted_last_max:
  assumes "sorted (map ts cs)" "c \<in> set cs"
  shows "ts c \<le> ts (last cs)"
proof -
  obtain i where i: "i < length cs" "cs ! i = c"
    using assms(2) by (auto simp: in_set_conv_nth)
  have "map ts cs ! i \<le> map ts cs ! (length cs - 1)"
    using assms(1) i by (intro sorted_nth_mono) auto
  moreover have "cs \<noteq> []" using assms(2) by auto
  ultimately show ?thesis using i by (simp add: last_conv_nth)
qed













section \<open>What a message does to the state\<close>

lemma count_tick_fields [simp]:
  "priceData (count_tick now s) = priceData s"
  "tickerData (count_tick now s) = tickerData s"
  "lastPriceUpdateRef (count_tick now s) = lastPriceUpdateRef s"
  "pendingUpdatesRef (count_tick now s) = pendingUpdatesRef s"
  "selectedSymbols (count_tick now s) = selectedSymbols s"
  "timeframe (count_tick now s) = timeframe s"
  "analyticsData (count_tick now s) = analyticsData s"
  "tickCounterRef (count_tick now s) = tickCounterRef s + 1"
  by (simp_all add: count_tick_def Let_def)

lemma accept_tick_cases:
  assumes "accept_tick h now message symbol p s = (out, s')"
  shows "(out = Throttled symbol \<and> priceData s' = priceData s)
       \<or> (out = Threw symbol \<and> priceData s' = priceData s)
       \<or> (\<exists>b. out = Flushed symbol (pending_of h message p) b
             \<and> priceData s' =
                 setPriceData_updater h (effectiveTimeframe s) symbol b
                   (pending_of h message p) (priceData s))"
proof -
  let ?lastUpdate = "case lastPriceUpdateRef s symbol of None \<Rightarrow> 0 | Some t \<Rightarrow> t"
  show ?thesis
  proof (cases "now - ?lastUpdate < PRICE_UPDATE_THROTTLE_MS")
    case True
    then show ?thesis using assms by (auto simp: accept_tick_def Let_def)
  next
    case False
    show ?thesis
    proof (cases "getBucketedTimestamp (localTZA h) (time (pending_of h message p))
                    (effectiveTimeframe s)")
      case None
      then show ?thesis using assms False by (auto simp: accept_tick_def Let_def)
    next
      case (Some b)
      then show ?thesis using assms False by (auto simp: accept_tick_def Let_def)
    qed
  qed
qed

lemma on_trade_cases:
  assumes "on_trade h now message s = (out, s')"
  shows "(out = Dropped \<and> s' = s)
       \<or> (\<exists>symbol p. tickSymbol_of message = JStr symbol \<and> symbol \<noteq> []
             \<and> symbol \<in> set (selectedSymbols s) \<and> tickPrice_of message = JNum p
             \<and> accept_tick h now message symbol p s = (out, s'))"
proof (cases "truthy (tickSymbol_of message) \<and> is_number (tickPrice_of message)
              \<and> tickSymbol_of message \<in> set (map JStr (selectedSymbols s))")
  case False
  then have "on_trade h now message s = (Dropped, s)"
    by (auto simp: on_trade_def Let_def)
  then show ?thesis using assms by simp
next
  case True
  then obtain symbol where
    sy: "tickSymbol_of message = JStr symbol" "symbol \<in> set (selectedSymbols s)"
    by auto
  obtain p where p: "tickPrice_of message = JNum p"
    using True by (cases "tickPrice_of message") auto
  have "symbol \<noteq> []" using True sy by auto
  then show ?thesis using assms True sy p by (auto simp: on_trade_def Let_def)
qed

lemma on_trade_priceData:
  assumes "on_trade h now message s = (out, s')"
  shows "(\<exists>symbol pu b. out = Flushed symbol pu b
             \<and> priceData s' =
                 setPriceData_updater h (effectiveTimeframe s) symbol b pu (priceData s))
         \<or> ((\<forall>symbol pu b. out \<noteq> Flushed symbol pu b) \<and> priceData s' = priceData s)"
proof -
  consider (dropped) "out = Dropped" "s' = s"
    | (accepted) symbol p where "accept_tick h now message symbol p s = (out, s')"
    using on_trade_cases[OF assms] by blast
  then show ?thesis
  proof cases
    case dropped
    then show ?thesis by simp
  next
    case accepted
    from accept_tick_cases[OF accepted] show ?thesis
      by (elim disjE conjE exE) simp_all
  qed
qed

lemma onmessage_priceData:
  assumes "onmessage h now message s = (out, s')"
  shows "(\<exists>symbol pu b. out = Flushed symbol pu b
             \<and> priceData s' =
                 setPriceData_updater h (effectiveTimeframe s) symbol b pu (priceData s))
         \<or> ((\<forall>symbol pu b. out \<noteq> Flushed symbol pu b) \<and> priceData s' = priceData s)"
proof (cases "message \<noteq> JNull \<and> message \<noteq> JUndefined \<and>
              (get_prop message ''type'' = JStr ''trade'' \<or>
               get_prop message ''type'' = JStr ''tick'')")
  case True
  then have "on_trade h now message s = (out, s')"
    using assms by (auto simp: onmessage_def Let_def)
  then show ?thesis by (rule on_trade_priceData)
next
  case False
  have "priceData (on_ticker h message s) = priceData s"
    by (simp add: on_ticker_def Let_def)
  then have "out = Other \<and> priceData s' = priceData s"
    using assms False by (auto simp: onmessage_def Let_def split: if_splits)
  then show ?thesis by simp
qed









section \<open>Late ticks and ticks of the same bucket\<close>

lemma updater_late:
  assumes "symbolData_of prev symbol \<noteq> []"
      and "bucketTs < ts (last (symbolData_of prev symbol))"
  shows "setPriceData_updater h tf symbol bucketTs pu prev = prev"
  using assms by (simp add: setPriceData_updater_def Let_def last_conv_nth)

lemma onmessage_Flushed:
  assumes "onmessage h now message s = (Flushed symbol pu b, s')"
  shows "priceData s' =
           setPriceData_updater h (effectiveTimeframe s) symbol b pu (priceData s)"
  using onmessage_priceData[OF assms] by auto

text \<open>
  C7.  Late-tick drop: an update whose bucket starts strictly before the \<open>ts\<close> of the
  last stored candle of its symbol leaves the whole candle store as it was: the
  updater returns the map it was given, so no list changes length and no candle, last
  or earlier, is written; and a message that the handler passes to the store with
  such a bucket leaves \<open>priceData\<close> unchanged.
\<close>

theorem late_tick_drop:
  assumes "symbolData_of (priceData s) symbol \<noteq> []"
      and "bucketTs < ts (last (symbolData_of (priceData s) symbol))"
  shows "setPriceData_updater h tf symbol bucketTs pu (priceData s) = priceData s
       \<and> (onmessage h now message s = (Flushed symbol pu bucketTs, s')
            \<longrightarrow> priceData s' = priceData s)"
  using updater_late[OF assms] onmessage_Flushed by simp

lemma late_message:
  "fst (onmessage example_host 1000 (trade_message ''BTCUSDT'' (Fin 50) 1 5000) late_state) =
     Flushed ''BTCUSDT''
        \<lparr>price = Fin 50, qty = JNum (Fin 1), tick_ts = JNum (Fin 5000), time = Some 5000\<rparr> 0"
  by (simp add: late_state_def handler_defs message_defs example_defs bucket_defs store_defs)

theorem late_tick_drop_witness:
  "symbolData_of (priceData late_state) ''BTCUSDT'' \<noteq> []
   \<and> 0 < ts (last (symbolData_of (priceData late_state) ''BTCUSDT''))
   \<and> fst (onmessage example_host 1000 (trade_message ''BTCUSDT'' (Fin 50) 1 5000) late_state)
       = Flushed ''BTCUSDT''
          \<lparr>price = Fin 50, qty = JNum (Fin 1), tick_ts = JNum (Fin 5000), time = Some 5000\<rparr> 0
   \<and> priceData (snd (onmessage example_host 1000
         (trade_message ''BTCUSDT'' (Fin 50) 1 5000) late_state)) = priceData late_state"
proof -
  let ?r = "onmessage example_host 1000 (trade_message ''BTCUSDT'' (Fin 50) 1 5000) late_state"
  let ?pu = "\<lparr>price = Fin 50, qty = JNum (Fin 1), tick_ts = JNum (Fin 5000), time = Some 5000\<rparr>"
  have h1: "symbolData_of (priceData late_state) ''BTCUSDT'' \<noteq> []"
    by (simp add: late_state_def symbolData_of_def)
  have h2: "0 < ts (last (symbolData_of (priceData late_state) ''BTCUSDT''))"
    by (simp add: late_state_def symbolData_of_def)
  have e: "?r = (Flushed ''BTCUSDT'' ?pu 0, snd ?r)"
    using late_message by (simp add: prod_eq_iff)
  have "priceData (snd ?r) = priceData late_state"
    using late_tick_drop[OF h1 h2, of example_host "''1m''" ?pu 1000
        "trade_message ''BTCUSDT'' (Fin 50) 1 5000" "snd ?r"] e
    by blast
  then show ?thesis using h1 h2 late_message by blast
qed

lemma slice_last_sorted:
  "sorted (map f xs) \<Longrightarrow> sorted (map f (slice_last n xs))"
  by (simp add: slice_last_def drop_map[symmetric])

lemma slice_last_last:
  "xs \<noteq> [] \<Longrightarrow> 0 < n \<Longrightarrow> slice_last n xs \<noteq> [] \<and> last (slice_last n xs) = last xs"
  by (cases xs) (auto simp: slice_last_def)

lemma updater_first:
  assumes "sorted (map ts (symbolData_of prev symbol))"
      and "symbolData_of prev symbol = [] \<or> ts (last (symbolData_of prev symbol)) < b"
  shows "symbolData_of (setPriceData_updater h tf symbol b pu prev) symbol \<noteq> []
       \<and> last (symbolData_of (setPriceData_updater h tf symbol b pu prev) symbol)
           = new_candle b pu"
proof (cases "symbolData_of prev symbol = []")
  case True
  then show ?thesis by (simp add: setPriceData_updater_def symbolData_of_def)
next
  case False
  let ?cs = "symbolData_of prev symbol"
  let ?new = "?cs @ [new_candle b pu]"
  have later: "ts (last ?cs) < b" using assms(2) False by simp
  have "\<forall>c \<in> set ?cs. ts c \<le> b"
    using sorted_last_max[OF assms(1)] later by fastforce
  then have srt: "sorted (map ts ?new)"
    using assms(1) by (simp add: sorted_append new_candle_def)
  have "sorted (map ts (slice_last (maxCandles tf) ?new))"
    using srt by (rule slice_last_sorted)
  then have id: "sort_key ts (slice_last (maxCandles tf) ?new) = slice_last (maxCandles tf) ?new"
    by (simp add: sort_key_id_if_sorted)
  have "slice_last (maxCandles tf) ?new \<noteq> []
        \<and> last (slice_last (maxCandles tf) ?new) = last ?new"
    using maxCandles_pos[of tf] by (intro slice_last_last) simp_all
  then have ne: "slice_last (maxCandles tf) ?new \<noteq> []"
    and lst: "last (slice_last (maxCandles tf) ?new) = new_candle b pu"
    by simp_all
  have "symbolData_of (setPriceData_updater h tf symbol b pu prev) symbol
          = slice_last (maxCandles tf) ?new"
    using False later id
    by (simp add: setPriceData_updater_def Let_def last_conv_nth symbolData_of_def)
  then show ?thesis using ne lst by simp
qed

lemma Math_max_Fin: "Math_max (Fin x) (Fin y) = Fin (max x y)"
  by (simp add: Math_max_def max_def)

lemma Math_min_Fin: "Math_min (Fin x) (Fin y) = Fin (min x y)"
  by (simp add: Math_min_def min_def)

lemma updatedLast_Fin:
  assumes "price pu = Fin p" and "qty pu = JNum (Fin q)"
  shows "updatedLast h pu
           \<lparr>ts = b, open' = opn, high = Fin hi, low = Fin lo, close = Fin c,
            volume = JNum (Fin v)\<rparr>
         = \<lparr>ts = b, open' = opn, high = Fin (max hi p), low = Fin (min lo p), close = Fin p,
            volume = JNum (Fin (v + q))\<rparr>"
  using assms
  by (simp add: updatedLast_def Math_max_Fin Math_min_Fin js_or_def num_truthy_def)

lemma meaningful_change_Fin:
  "meaningful_change h
     \<lparr>ts = b, open' = opn, high = Fin hi', low = Fin lo', close = Fin c',
      volume = JNum (Fin v')\<rparr>
     \<lparr>ts = b, open' = opn, high = Fin hi, low = Fin lo, close = Fin c, volume = JNum (Fin v)\<rparr>
   = (\<bar>c' - c\<bar> > max (c * 0.000001) 0.001 \<or> \<bar>hi' - hi\<bar> > max (c * 0.000001) 0.001
      \<or> \<bar>lo' - lo\<bar> > max (c * 0.000001) 0.001 \<or> \<bar>v' - v\<bar> > 0.0001)"
  by (simp add: meaningful_change_def Math_max_Fin num_gt_def num_sub_def js_sub_def)

text \<open>
  The same-bucket branch on finite numbers, in real arithmetic: the last candle gets
  the new price as close, the larger of its high and the price as high, the smaller of
  its low and the price as low, and its volume plus the quantity; the candles before
  it stay.  The branch keeps the candle as it was when none of close, high and low
  moves by more than the price threshold and the quantity is at most 0.0001.
\<close>

lemma updater_same_bucket_rule:
  assumes "symbolData_of prev symbol =
             cs @ [\<lparr>ts = b, open' = opn, high = Fin hi, low = Fin lo, close = Fin c,
                    volume = JNum (Fin v)\<rparr>]"
      and "price pu = Fin p" and "qty pu = JNum (Fin q)"
  shows "symbolData_of (setPriceData_updater h tf symbol b pu prev) symbol =
           (if \<bar>p - c\<bar> > max (c * 0.000001) 0.001
               \<or> \<bar>max hi p - hi\<bar> > max (c * 0.000001) 0.001
               \<or> \<bar>min lo p - lo\<bar> > max (c * 0.000001) 0.001 \<or> \<bar>q\<bar> > 0.0001
            then cs @ [\<lparr>ts = b, open' = opn, high = Fin (max hi p), low = Fin (min lo p),
                         close = Fin p, volume = JNum (Fin (v + q))\<rparr>]
            else cs @ [\<lparr>ts = b, open' = opn, high = Fin hi, low = Fin lo, close = Fin c,
                         volume = JNum (Fin v)\<rparr>])"
proof -
  let ?old = "\<lparr>ts = b, open' = opn, high = Fin hi, low = Fin lo, close = Fin c,
               volume = JNum (Fin v)\<rparr>"
  let ?new = "\<lparr>ts = b, open' = opn, high = Fin (max hi p), low = Fin (min lo p),
               close = Fin p, volume = JNum (Fin (v + q))\<rparr>"
  let ?sd = "symbolData_of prev symbol"
  have len: "length ?sd - 1 = length cs" and ne: "length ?sd > 0"
    using assms(1) by simp_all
  have lst: "?sd ! (length ?sd - 1) = ?old"
    using assms(1) by simp
  have upd: "updatedLast h pu ?old = ?new"
    using assms(2,3) by (rule updatedLast_Fin)
  have mc: "meaningful_change h ?new ?old =
              (\<bar>p - c\<bar> > max (c * 0.000001) 0.001
               \<or> \<bar>max hi p - hi\<bar> > max (c * 0.000001) 0.001
               \<or> \<bar>min lo p - lo\<bar> > max (c * 0.000001) 0.001 \<or> \<bar>q\<bar> > 0.0001)"
    by (simp add: meaningful_change_Fin)
  have put: "?sd[length ?sd - 1 := ?new] = cs @ [?new]"
    using assms(1) by simp
  have res: "setPriceData_updater h tf symbol b pu prev =
               (if \<not> meaningful_change h ?new ?old then prev
                else prev(symbol \<mapsto> ?sd[length ?sd - 1 := ?new]))"
    using ne lst upd by (simp add: setPriceData_updater_def Let_def)
  let ?moved = "\<bar>p - c\<bar> > max (c * 0.000001) 0.001
               \<or> \<bar>max hi p - hi\<bar> > max (c * 0.000001) 0.001
               \<or> \<bar>min lo p - lo\<bar> > max (c * 0.000001) 0.001 \<or> \<bar>q\<bar> > 0.0001"
  show ?thesis
  proof (cases "meaningful_change h ?new ?old")
    case True
    then have eq: "symbolData_of (setPriceData_updater h tf symbol b pu prev) symbol
                     = cs @ [?new]"
      using res put by (simp add: symbolData_of_def)
    have moved: ?moved using True mc by blast
    show ?thesis unfolding if_P[OF moved] by (rule eq)
  next
    case False
    then have "symbolData_of (setPriceData_updater h tf symbol b pu prev) symbol = ?sd"
      using res by simp
    then have eq: "symbolData_of (setPriceData_updater h tf symbol b pu prev) symbol
                     = cs @ [?old]"
      using assms(1) by (simp only:)
    have still: "\<not> ?moved" using False mc by blast
    show ?thesis unfolding if_not_P[OF still] by (rule eq)
  qed
qed

text \<open>
  C6.  Same-bucket accumulation: on an ordered store that is empty for the symbol or
  ends before the bucket, the update (price 100, quantity 1) followed by the update
  (price 105, quantity 2) in the same bucket leaves as last candle
  \<open>{open = 100, high = 105, low = 100, close = 105, volume = 3}\<close>.  The rule behind
  it, for a last candle of the update's bucket with finite prices and volume and an
  update with a finite price \<open>p\<close> and quantity \<open>q\<close>: the close becomes \<open>p\<close>, the
  high the larger of the high and \<open>p\<close>, the low the smaller of the low and \<open>p\<close>,
  the volume grows by \<open>q\<close>, the open and the earlier candles stay; this is what
  the branch does whenever the close, the high or the low moves by more than the price
  threshold or the quantity exceeds 0.0001, as the move from 100 to 105 does.
\<close>

theorem same_bucket_accumulation:
  "(sorted (map ts (symbolData_of prev symbol))
      \<and> (symbolData_of prev symbol = [] \<or> ts (last (symbolData_of prev symbol)) < b)
      \<and> price pu1 = Fin 100 \<and> qty pu1 = JNum (Fin 1)
      \<and> price pu2 = Fin 105 \<and> qty pu2 = JNum (Fin 2) \<longrightarrow>
      last (symbolData_of
              (setPriceData_updater h tf symbol b pu2
                 (setPriceData_updater h tf symbol b pu1 prev)) symbol)
        = \<lparr>ts = b, open' = Fin 100, high = Fin 105, low = Fin 100, close = Fin 105,
           volume = JNum (Fin 3)\<rparr>)
   \<and> (symbolData_of prev symbol =
          cs @ [\<lparr>ts = b, open' = opn, high = Fin hi, low = Fin lo, close = Fin c,
                 volume = JNum (Fin v)\<rparr>]
      \<and> price pu = Fin p \<and> qty pu = JNum (Fin q) \<longrightarrow>
      symbolData_of (setPriceData_updater h tf symbol b pu prev) symbol =
        (if \<bar>p - c\<bar> > max (c * 0.000001) 0.001
            \<or> \<bar>max hi p - hi\<bar> > max (c * 0.000001) 0.001
            \<or> \<bar>min lo p - lo\<bar> > max (c * 0.000001) 0.001 \<or> \<bar>q\<bar> > 0.0001
         then cs @ [\<lparr>ts = b, open' = opn, high = Fin (max hi p), low = Fin (min lo p),
                      close = Fin p, volume = JNum (Fin (v + q))\<rparr>]
         else cs @ [\<lparr>ts = b, open' = opn, high = Fin hi, low = Fin lo, close = Fin c,
                      volume = JNum (Fin v)\<rparr>]))"
proof -
  have first: "last (symbolData_of
              (setPriceData_updater h tf symbol b pu2
                 (setPriceData_updater h tf symbol b pu1 prev)) symbol)
        = \<lparr>ts = b, open' = Fin 100, high = Fin 105, low = Fin 100, close = Fin 105,
           volume = JNum (Fin 3)\<rparr>"
    if srt: "sorted (map ts (symbolData_of prev symbol))"
      and fresh: "symbolData_of prev symbol = [] \<or> ts (last (symbolData_of prev symbol)) < b"
      and p1: "price pu1 = Fin 100" "qty pu1 = JNum (Fin 1)"
      and p2: "price pu2 = Fin 105" "qty pu2 = JNum (Fin 2)"
  proof -
    let ?m1 = "setPriceData_updater h tf symbol b pu1 prev"
    let ?cs1 = "symbolData_of ?m1 symbol"
    have ne: "?cs1 \<noteq> []" and lst: "last ?cs1 = new_candle b pu1"
      using updater_first[OF srt fresh] by auto
    have c1: "last ?cs1 = \<lparr>ts = b, open' = Fin 100, high = Fin 100, low = Fin 100,
        close = Fin 100, volume = JNum (Fin 1)\<rparr>"
      using lst p1 by (simp add: new_candle_def)
    have split: "?cs1 = butlast ?cs1 @ [\<lparr>ts = b, open' = Fin 100, high = Fin 100,
        low = Fin 100, close = Fin 100, volume = JNum (Fin 1)\<rparr>]"
      using ne c1 append_butlast_last_id[of ?cs1] by simp
    have "symbolData_of (setPriceData_updater h tf symbol b pu2 ?m1) symbol =
            butlast ?cs1 @ [\<lparr>ts = b, open' = Fin 100, high = Fin 105, low = Fin 100,
              close = Fin 105, volume = JNum (Fin 3)\<rparr>]"
      using updater_same_bucket_rule[OF split p2, of h tf] by simp
    then show ?thesis by simp
  qed
  show ?thesis using first updater_same_bucket_rule by blast
qed

theorem same_bucket_accumulation_witness:
  "last (symbolData_of
     (setPriceData_updater example_host ''1m'' ''BTCUSDT'' 0
        \<lparr>price = Fin 105, qty = JNum (Fin 2), tick_ts = JNum (Fin 30000), time = Some 30000\<rparr>
        (setPriceData_updater example_host ''1m'' ''BTCUSDT'' 0
           \<lparr>price = Fin 100, qty = JNum (Fin 1), tick_ts = JNum (Fin 0), time = Some 0\<rparr>
           Map.empty)) ''BTCUSDT'')
   = \<lparr>ts = 0, open' = Fin 100, high = Fin 105, low = Fin 100, close = Fin 105,
      volume = JNum (Fin 3)\<rparr>
   \<and> symbolData_of
       (setPriceData_updater example_host ''1m'' ''BTCUSDT'' 0
          \<lparr>price = Fin 95, qty = JNum (Fin 2), tick_ts = JNum (Fin 40000), time = Some 40000\<rparr>
          [''BTCUSDT'' \<mapsto>
             [\<lparr>ts = 0, open' = Fin 100, high = Fin 105, low = Fin 100, close = Fin 105,
               volume = JNum (Fin 3)\<rparr>]]) ''BTCUSDT''
     = [\<lparr>ts = 0, open' = Fin 100, high = Fin 105, low = Fin 95, close = Fin 95,
         volume = JNum (Fin 5)\<rparr>]
   \<and> symbolData_of
       (setPriceData_updater example_host ''1m'' ''BTCUSDT'' 0
          \<lparr>price = Fin 100.0005, qty = JNum (Fin 0), tick_ts = JNum (Fin 50000),
           time = Some 50000\<rparr>
          [''BTCUSDT'' \<mapsto>
             [\<lparr>ts = 0, open' = Fin 100, high = Fin 105, low = Fin 95, close = Fin 100,
               volume = JNum (Fin 5)\<rparr>]]) ''BTCUSDT''
     = [\<lparr>ts = 0, open' = Fin 100, high = Fin 105, low = Fin 95, close = Fin 100,
         volume = JNum (Fin 5)\<rparr>]"
proof -
  let ?pu1 = "\<lparr>price = Fin 100, qty = JNum (Fin 1), tick_ts = JNum (Fin 0), time = Some 0\<rparr>"
  let ?pu2 = "\<lparr>price = Fin 105, qty = JNum (Fin 2), tick_ts = JNum (Fin 30000),
               time = Some 30000\<rparr>"
  let ?pu3 = "\<lparr>price = Fin 95, qty = JNum (Fin 2), tick_ts = JNum (Fin 40000),
               time = Some 40000\<rparr>"
  let ?pu4 = "\<lparr>price = Fin 100.0005, qty = JNum (Fin 0), tick_ts = JNum (Fin 50000),
               time = Some 50000\<rparr>"
  let ?up = "[''BTCUSDT'' \<mapsto>
             [\<lparr>ts = 0, open' = Fin 100, high = Fin 105, low = Fin 100, close = Fin 105,
               volume = JNum (Fin 3)\<rparr>]]"
  let ?down = "[''BTCUSDT'' \<mapsto>
             [\<lparr>ts = 0, open' = Fin 100, high = Fin 105, low = Fin 95, close = Fin 100,
               volume = JNum (Fin 5)\<rparr>]]"
  have a: "last (symbolData_of
     (setPriceData_updater example_host ''1m'' ''BTCUSDT'' 0 ?pu2
        (setPriceData_updater example_host ''1m'' ''BTCUSDT'' 0 ?pu1 Map.empty)) ''BTCUSDT'')
   = \<lparr>ts = 0, open' = Fin 100, high = Fin 105, low = Fin 100, close = Fin 105,
      volume = JNum (Fin 3)\<rparr>"
    using same_bucket_accumulation[where prev = Map.empty and symbol = "''BTCUSDT''"
        and b = 0 and ?pu1.0 = ?pu1 and ?pu2.0 = ?pu2 and h = example_host and tf = "''1m''"]
    by (simp add: symbolData_of_def)
  have b: "symbolData_of (setPriceData_updater example_host ''1m'' ''BTCUSDT'' 0 ?pu3 ?up)
             ''BTCUSDT''
     = [\<lparr>ts = 0, open' = Fin 100, high = Fin 105, low = Fin 95, close = Fin 95,
         volume = JNum (Fin 5)\<rparr>]"
    using same_bucket_accumulation[where prev = ?up and symbol = "''BTCUSDT''" and b = 0
        and cs = "[]" and opn = "Fin 100" and hi = 105 and lo = 100 and c = 105 and v = 3
        and pu = ?pu3 and p = 95 and q = 2 and h = example_host and tf = "''1m''"]
    by (simp add: symbolData_of_def)
  have c: "symbolData_of (setPriceData_updater example_host ''1m'' ''BTCUSDT'' 0 ?pu4 ?down)
             ''BTCUSDT''
     = [\<lparr>ts = 0, open' = Fin 100, high = Fin 105, low = Fin 95, close = Fin 100,
         volume = JNum (Fin 5)\<rparr>]"
    using same_bucket_accumulation[where prev = ?down and symbol = "''BTCUSDT''" and b = 0
        and cs = "[]" and opn = "Fin 100" and hi = 105 and lo = 95 and c = 100 and v = 5
        and pu = ?pu4 and p = "100.0005" and q = 0 and h = example_host and tf = "''1m''"]
    by (simp add: symbolData_of_def)
  show ?thesis using a b c by simp
qed

section \<open>Ticker snapshots: the gate and the fields\<close>

lemmas ticker_defs =
  on_ticker_def ticker_updater_def newTickerData_def tickerSymbol_of_def resolveNumber_def
  js_or_def nullish_def num_sub_def js_sub_def Let_def

lemma on_ticker_existing:
  assumes "truthy (tickerSymbol_of message)"
      and "tickerData s (property_key h (tickerSymbol_of message)) = Some existing"
  shows "on_ticker h message s =
           (if num_lt (num_abs (js_sub h (lastPrice existing)
                                  (lastPrice (newTickerData h message)))) (Fin 0.01)
               \<and> num_lt (num_abs (js_sub h (priceChangePercent existing)
                                     (priceChangePercent (newTickerData h message))))
                    (Fin 0.01)
            then s
            else s\<lparr>tickerData :=
                   (tickerData s)(property_key h (tickerSymbol_of message) \<mapsto>
                     newTickerData h message)\<rparr>)"
  using assms by (simp add: on_ticker_def ticker_updater_def)

text \<open>
  C8 (as amended).  A ticker message for a symbol that has a snapshot replaces all
  eight fields, unless both \<open>lastPrice\<close> and \<open>priceChangePercent\<close> of the message are
  less than 0.01 away from the snapshot's, in which case the state is unchanged.  The
  six other fields are not compared.
\<close>

theorem ticker_epsilon_gate:
  assumes "truthy (tickerSymbol_of message)"
      and "tickerData s (property_key h (tickerSymbol_of message)) = Some existing"
      and "new = newTickerData h message"
      and "lastPrice existing = JNum (Fin a)" and "lastPrice new = JNum (Fin a')"
      and "priceChangePercent existing = JNum (Fin c)"
      and "priceChangePercent new = JNum (Fin c')"
  shows "on_ticker h message s =
           (if \<bar>a - a'\<bar> < 0.01 \<and> \<bar>c - c'\<bar> < 0.01 then s
            else s\<lparr>tickerData :=
                   (tickerData s)(property_key h (tickerSymbol_of message) \<mapsto> new)\<rparr>)"
  using on_ticker_existing[OF assms(1,2)] assms(3-7)
  by (simp add: num_sub_def js_sub_def)

lemma ticker_message_new:
  "newTickerData example_host (ticker_message (JNum (Fin lp)) (JNum (Fin vol))) =
     \<lparr>priceChange = JNum (Fin 1), priceChangePercent = JNum (Fin 1),
      lastPrice = JNum (Fin lp), openPrice = JNum (Fin 99), highPrice = JNum (Fin 101),
      lowPrice = JNum (Fin 98), volume24 = JNum (Fin vol), quoteVolume = JNum (Fin 500)\<rparr>"
  by (simp add: ticker_message_def newTickerData_def resolveNumber_def js_or_def Let_def)

lemma ticker_message_symbol:
  "tickerSymbol_of (ticker_message lp vol) = JStr ''BTCUSDT''"
  by (simp add: ticker_message_def tickerSymbol_of_def js_or_def)

theorem ticker_epsilon_gate_witness:
  "on_ticker example_host (ticker_message (JNum (Fin 100.5)) (JNum (Fin 5))) ticker_session =
     ticker_session\<lparr>tickerData :=
       [''BTCUSDT'' \<mapsto>
          \<lparr>priceChange = JNum (Fin 1), priceChangePercent = JNum (Fin 1),
           lastPrice = JNum (Fin 100.5), openPrice = JNum (Fin 99),
           highPrice = JNum (Fin 101), lowPrice = JNum (Fin 98),
           volume24 = JNum (Fin 5), quoteVolume = JNum (Fin 500)\<rparr>]\<rparr>"
  using ticker_epsilon_gate[of "ticker_message (JNum (Fin 100.5)) (JNum (Fin 5))"
      ticker_session example_host
      "\<lparr>priceChange = JNum (Fin 1), priceChangePercent = JNum (Fin 1),
           lastPrice = JNum (Fin 100), openPrice = JNum (Fin 99),
           highPrice = JNum (Fin 101), lowPrice = JNum (Fin 98),
           volume24 = JNum (Fin 5), quoteVolume = JNum (Fin 500)\<rparr>"
      "newTickerData example_host (ticker_message (JNum (Fin 100.5)) (JNum (Fin 5)))"
      100 "100.5" 1 1]
  by (simp add: ticker_message_new ticker_message_symbol ticker_session_def)

text \<open>
  C8 as stated fails: a message whose volume is 4995 away from the snapshot's,
  with the same last price and percentage, leaves the snapshot as it was.
\<close>

theorem ticker_epsilon_counterexample:
  "on_ticker example_host (ticker_message (JNum (Fin 100)) (JNum (Fin 5000))) ticker_session
     = ticker_session
   \<and> volume24 (newTickerData example_host
        (ticker_message (JNum (Fin 100)) (JNum (Fin 5000)))) = JNum (Fin 5000)
   \<and> Option.bind (tickerData ticker_session ''BTCUSDT'') (\<lambda>t. Some (volume24 t))
       = Some (JNum (Fin 5))"
  by (simp add: ticker_message_new ticker_message_symbol ticker_session_def on_ticker_def
      ticker_updater_def num_sub_def js_sub_def)

text \<open>What \<open>resolveNumber\<close> returns, case by case.\<close>

lemma resolveNumber_number: "resolveNumber h (JNum n) fb = JNum n"
  by (simp add: resolveNumber_def)

lemma resolveNumber_is_number: "is_number (resolveNumber h v fb)"
  by (simp add: resolveNumber_def Let_def)

lemma resolveNumber_absent:
  assumes "v \<in> {JUndefined, JNull}"
  shows "resolveNumber h v JUndefined = JNum (Fin 0)"
    and "resolveNumber h v JNull = JNum (Fin 0)"
    and "resolveNumber h v (JNum (Fin x)) = JNum (Fin x)"
    and "resolveNumber h v (JNum PInf) = JNum (Fin 0)"
    and "resolveNumber h v (JNum NInf) = JNum (Fin 0)"
    and "resolveNumber h v (JNum NaN) = JNum (Fin 0)"
    and "resolveNumber h v (JBool b) = JNum (Fin (if b then 1 else 0))"
    and "resolveNumber h v (JStr str) =
           (case Number_of h (JStr str) of Fin x \<Rightarrow> JNum (Fin x) | _ \<Rightarrow> JNum (Fin 0))"
    and "resolveNumber h v (JArr xs) =
           (case Number_of h (JArr xs) of Fin x \<Rightarrow> JNum (Fin x) | _ \<Rightarrow> JNum (Fin 0))"
    and "resolveNumber h v (JObj kvs) =
           (case Number_of h (JObj kvs) of Fin x \<Rightarrow> JNum (Fin x) | _ \<Rightarrow> JNum (Fin 0))"
  using assms
  by (auto simp: resolveNumber_def nullish_def Let_def split: jsnum.splits)

lemma resolveNumber_present:
  "resolveNumber h (JBool b) fb = JNum (Fin (if b then 1 else 0))"
  "resolveNumber h (JStr str) fb =
     (case Number_of h (JStr str) of Fin x \<Rightarrow> JNum (Fin x) | _ \<Rightarrow> JNum (Fin 0))"
  "resolveNumber h (JArr xs) fb =
     (case Number_of h (JArr xs) of Fin x \<Rightarrow> JNum (Fin x) | _ \<Rightarrow> JNum (Fin 0))"
  "resolveNumber h (JObj kvs) fb =
     (case Number_of h (JObj kvs) of Fin x \<Rightarrow> JNum (Fin x) | _ \<Rightarrow> JNum (Fin 0))"
  by (auto simp: resolveNumber_def nullish_def Let_def split: jsnum.splits)

lemma newTickerData_numeric: "numeric (newTickerData h message)"
  by (simp add: numeric_def newTickerData_def Let_def resolveNumber_is_number)

lemma newTickerData_fields:
  "(let tk = js_or (get_prop message ''data'') message; t = newTickerData h message
    in priceChange t =
         resolveNumber h (get_prop tk ''priceChange'') (get_prop message ''priceChange'')
     \<and> priceChangePercent t =
         resolveNumber h (get_prop tk ''priceChangePercent'')
           (get_prop message ''priceChangePercent'')
     \<and> lastPrice t =
         resolveNumber h (get_prop tk ''lastPrice'') (get_prop message ''lastPrice'')
     \<and> openPrice t =
         resolveNumber h (get_prop tk ''openPrice'') (get_prop message ''openPrice'')
     \<and> highPrice t =
         resolveNumber h (get_prop tk ''highPrice'') (get_prop message ''highPrice'')
     \<and> lowPrice t =
         resolveNumber h (get_prop tk ''lowPrice'') (get_prop message ''lowPrice'')
     \<and> volume24 t = resolveNumber h (get_prop tk ''volume'') (get_prop message ''volume'')
     \<and> quoteVolume t =
         resolveNumber h (get_prop tk ''quoteVolume'') (get_prop message ''quoteVolume''))"
  by (simp add: newTickerData_def Let_def)

text \<open>Every write to the ticker snapshots stores numbers.\<close>

lemma ticker_updater_numeric:
  assumes "tickers_numeric prev" "numeric new"
  shows "tickers_numeric (ticker_updater h key new prev)"
  using assms by (auto simp: tickers_numeric_def ticker_updater_def split: option.splits)

lemma on_ticker_numeric:
  assumes "tickers_numeric (tickerData s)"
  shows "tickers_numeric (tickerData (on_ticker h message s))"
  using assms ticker_updater_numeric[OF assms newTickerData_numeric]
  by (simp add: on_ticker_def Let_def)

lemma trade_ticker_updater_numeric:
  assumes "tickers_numeric prev"
  shows "tickers_numeric (trade_ticker_updater h symbol p prev)"
proof (cases "prev symbol")
  case None
  then show ?thesis using assms
    by (auto simp: tickers_numeric_def trade_ticker_updater_def numeric_def Let_def)
next
  case (Some existing)
  then have "numeric existing" using assms by (simp add: tickers_numeric_def)
  then show ?thesis using assms Some
    by (auto simp: tickers_numeric_def trade_ticker_updater_def numeric_def Let_def)
qed

lemma accept_tick_tickerData:
  "tickerData (snd (accept_tick h now message symbol p s)) =
     trade_ticker_updater h symbol p (tickerData s)"
  by (simp add: accept_tick_def Let_def split: option.splits)

lemma onmessage_numeric:
  assumes "tickers_numeric (tickerData s)"
  shows "tickers_numeric (tickerData (snd (onmessage h now message s)))"
proof (cases "message \<noteq> JNull \<and> message \<noteq> JUndefined \<and>
              (get_prop message ''type'' = JStr ''trade'' \<or>
               get_prop message ''type'' = JStr ''tick'')")
  case True
  then have eq: "onmessage h now message s = on_trade h now message s"
    by (auto simp: onmessage_def Let_def)
  have r: "on_trade h now message s
             = (fst (on_trade h now message s), snd (on_trade h now message s))"
    by simp
  consider (dropped) "snd (on_trade h now message s) = s"
    | (accepted) symbol p where
        "accept_tick h now message symbol p s
           = (fst (on_trade h now message s), snd (on_trade h now message s))"
    using on_trade_cases[OF r] by blast
  then show ?thesis
  proof cases
    case dropped
    then show ?thesis using assms eq by simp
  next
    case accepted
    then have "snd (on_trade h now message s) = snd (accept_tick h now message symbol p s)"
      by simp
    then show ?thesis
      using assms eq accept_tick_tickerData trade_ticker_updater_numeric by simp
  qed
next
  case False
  then have "tickerData (snd (onmessage h now message s)) = tickerData s
             \<or> snd (onmessage h now message s) = on_ticker h message s"
    by (auto simp: onmessage_def Let_def split: if_splits)
  then show ?thesis using assms on_ticker_numeric by auto
qed

lemma run_numeric:
  assumes "tickers_numeric (tickerData s)"
  shows "tickers_numeric (tickerData (snd (run h s evs)))"
  using assms
proof (induction evs arbitrary: s)
  case Nil
  then show ?case by simp
next
  case (Cons ev evs)
  obtain now message where ev: "ev = (now, message)" by (cases ev)
  obtain out s' where st: "onmessage h now message s = (out, s')"
    by (cases "onmessage h now message s")
  have "tickers_numeric (tickerData s')"
    using onmessage_numeric[OF Cons.prems, of h now message] st by simp
  then have "tickers_numeric (tickerData (snd (run h s' evs)))" by (rule Cons.IH)
  then show ?case using ev st by (simp add: split_beta)
qed

lemma on_ticker_stored:
  assumes "truthy (tickerSymbol_of message)"
  shows "tickerData (on_ticker h message s) (property_key h (tickerSymbol_of message))
           = Some (newTickerData h message)
         \<or> (tickerData (on_ticker h message s) (property_key h (tickerSymbol_of message))
              = tickerData s (property_key h (tickerSymbol_of message))
            \<and> tickerData s (property_key h (tickerSymbol_of message)) \<noteq> None)"
  using assms by (auto simp: on_ticker_def ticker_updater_def Let_def split: option.splits)

text \<open>
  C10.  Ticker fields are numbers.  Each of the eight fields built from a ticker
  message is a number, namely what \<open>resolveNumber\<close> returns for the field of the
  payload and the field of the same name at the top level of the message (the
  fallback): a payload number as it is; for a payload that is \<open>undefined\<close> or
  \<open>null\<close>, the conversion of the fallback, which is 0 when the fallback is
  \<open>undefined\<close> or \<open>null\<close> too; for any other payload its own conversion to a
  number; and 0 wherever the conversion is not finite.  After a ticker message with a
  symbol, the snapshot stored for the symbol is the one built from the message or the
  one stored before; and as the trade path stores numbers too, every field of every
  stored snapshot stays a number whatever messages arrive.
\<close>

theorem ticker_fields_total:
  "numeric (newTickerData h message)
   \<and> (let tk = js_or (get_prop message ''data'') message; t = newTickerData h message
      in priceChange t =
           resolveNumber h (get_prop tk ''priceChange'') (get_prop message ''priceChange'')
       \<and> priceChangePercent t =
           resolveNumber h (get_prop tk ''priceChangePercent'')
             (get_prop message ''priceChangePercent'')
       \<and> lastPrice t =
           resolveNumber h (get_prop tk ''lastPrice'') (get_prop message ''lastPrice'')
       \<and> openPrice t =
           resolveNumber h (get_prop tk ''openPrice'') (get_prop message ''openPrice'')
       \<and> highPrice t =
           resolveNumber h (get_prop tk ''highPrice'') (get_prop message ''highPrice'')
       \<and> lowPrice t =
           resolveNumber h (get_prop tk ''lowPrice'') (get_prop message ''lowPrice'')
       \<and> volume24 t = resolveNumber h (get_prop tk ''volume'') (get_prop message ''volume'')
       \<and> quoteVolume t =
           resolveNumber h (get_prop tk ''quoteVolume'') (get_prop message ''quoteVolume''))
   \<and> resolveNumber h (JNum n) fb = JNum n
   \<and> resolveNumber h (JBool b) fb = JNum (Fin (if b then 1 else 0))
   \<and> resolveNumber h (JStr str) fb =
       (case Number_of h (JStr str) of Fin x \<Rightarrow> JNum (Fin x) | _ \<Rightarrow> JNum (Fin 0))
   \<and> resolveNumber h (JArr xs) fb =
       (case Number_of h (JArr xs) of Fin x \<Rightarrow> JNum (Fin x) | _ \<Rightarrow> JNum (Fin 0))
   \<and> resolveNumber h (JObj kvs) fb =
       (case Number_of h (JObj kvs) of Fin x \<Rightarrow> JNum (Fin x) | _ \<Rightarrow> JNum (Fin 0))
   \<and> (v \<in> {JUndefined, JNull} \<longrightarrow>
        resolveNumber h v JUndefined = JNum (Fin 0)
        \<and> resolveNumber h v JNull = JNum (Fin 0)
        \<and> resolveNumber h v (JNum (Fin x)) = JNum (Fin x)
        \<and> resolveNumber h v (JNum PInf) = JNum (Fin 0)
        \<and> resolveNumber h v (JNum NInf) = JNum (Fin 0)
        \<and> resolveNumber h v (JNum NaN) = JNum (Fin 0)
        \<and> resolveNumber h v (JBool b) = JNum (Fin (if b then 1 else 0))
        \<and> resolveNumber h v (JStr str) =
            (case Number_of h (JStr str) of Fin x \<Rightarrow> JNum (Fin x) | _ \<Rightarrow> JNum (Fin 0))
        \<and> resolveNumber h v (JArr xs) =
            (case Number_of h (JArr xs) of Fin x \<Rightarrow> JNum (Fin x) | _ \<Rightarrow> JNum (Fin 0))
        \<and> resolveNumber h v (JObj kvs) =
            (case Number_of h (JObj kvs) of Fin x \<Rightarrow> JNum (Fin x) | _ \<Rightarrow> JNum (Fin 0)))
   \<and> (truthy (tickerSymbol_of message) \<longrightarrow>
        tickerData (on_ticker h message s) (property_key h (tickerSymbol_of message))
          = Some (newTickerData h message)
        \<or> (tickerData (on_ticker h message s) (property_key h (tickerSymbol_of message))
              = tickerData s (property_key h (tickerSymbol_of message))
            \<and> tickerData s (property_key h (tickerSymbol_of message)) \<noteq> None))
   \<and> (tickers_numeric (tickerData s) \<longrightarrow>
        tickers_numeric (tickerData (snd (run h s evs))))"
proof -
  have absent: "v \<in> {JUndefined, JNull} \<longrightarrow>
        resolveNumber h v JUndefined = JNum (Fin 0)
        \<and> resolveNumber h v JNull = JNum (Fin 0)
        \<and> resolveNumber h v (JNum (Fin x)) = JNum (Fin x)
        \<and> resolveNumber h v (JNum PInf) = JNum (Fin 0)
        \<and> resolveNumber h v (JNum NInf) = JNum (Fin 0)
        \<and> resolveNumber h v (JNum NaN) = JNum (Fin 0)
        \<and> resolveNumber h v (JBool b) = JNum (Fin (if b then 1 else 0))
        \<and> resolveNumber h v (JStr str) =
            (case Number_of h (JStr str) of Fin x \<Rightarrow> JNum (Fin x) | _ \<Rightarrow> JNum (Fin 0))
        \<and> resolveNumber h v (JArr xs) =
            (case Number_of h (JArr xs) of Fin x \<Rightarrow> JNum (Fin x) | _ \<Rightarrow> JNum (Fin 0))
        \<and> resolveNumber h v (JObj kvs) =
            (case Number_of h (JObj kvs) of Fin x \<Rightarrow> JNum (Fin x) | _ \<Rightarrow> JNum (Fin 0))"
    by (intro impI conjI) (rule resolveNumber_absent, assumption)+
  have stored: "truthy (tickerSymbol_of message) \<longrightarrow>
        tickerData (on_ticker h message s) (property_key h (tickerSymbol_of message))
          = Some (newTickerData h message)
        \<or> (tickerData (on_ticker h message s) (property_key h (tickerSymbol_of message))
              = tickerData s (property_key h (tickerSymbol_of message))
            \<and> tickerData s (property_key h (tickerSymbol_of message)) \<noteq> None)"
    by (rule impI) (rule on_ticker_stored)
  have kept: "tickers_numeric (tickerData s) \<longrightarrow>
        tickers_numeric (tickerData (snd (run h s evs)))"
    by (rule impI) (rule run_numeric)
  show ?thesis
    by (intro conjI)
      (rule newTickerData_numeric, rule newTickerData_fields, rule resolveNumber_number,
       rule resolveNumber_present, rule resolveNumber_present, rule resolveNumber_present,
       rule resolveNumber_present, rule absent, rule stored, rule kept)
qed

theorem ticker_fields_total_witness:
  "priceChange (newTickerData parsing_host nested_ticker) = JNum (Fin 0)
   \<and> priceChangePercent (newTickerData parsing_host nested_ticker) = JNum (Fin 0)
   \<and> lastPrice (newTickerData parsing_host nested_ticker) = JNum (Fin 42.5)
   \<and> openPrice (newTickerData parsing_host nested_ticker) = JNum (Fin 7)
   \<and> highPrice (newTickerData parsing_host nested_ticker) = JNum (Fin 1)
   \<and> lowPrice (newTickerData parsing_host nested_ticker) = JNum (Fin 3)
   \<and> volume24 (newTickerData parsing_host nested_ticker) = JNum (Fin 0)
   \<and> quoteVolume (newTickerData parsing_host nested_ticker) = JNum (Fin 0)
   \<and> truthy (tickerSymbol_of nested_ticker)
   \<and> tickerData (on_ticker parsing_host nested_ticker ticker_session) ''BTCUSDT''
       = Some (newTickerData parsing_host nested_ticker)
   \<and> tickers_numeric (tickerData ticker_session)
   \<and> tickers_numeric (tickerData (snd (run parsing_host ticker_session
        [(1000, nested_ticker), (1100, trade_message ''BTCUSDT'' (Fin 50) 1 0)])))"
proof -
  let ?m = nested_ticker
  let ?t = "newTickerData parsing_host ?m"
  let ?evs = "[(1000, nested_ticker), (1100, trade_message ''BTCUSDT'' (Fin 50) 1 0)]"
  note total = ticker_fields_total[where h = parsing_host and message = ?m
      and s = ticker_session and evs = ?evs]
  have absent: "JUndefined \<in> {JUndefined, JNull}" "JNull \<in> {JUndefined, JNull}"
    by simp_all
  have f: "priceChange ?t = resolveNumber parsing_host JUndefined JUndefined"
    "priceChangePercent ?t = resolveNumber parsing_host (JStr ''1e999'') JUndefined"
    "lastPrice ?t = resolveNumber parsing_host (JStr ''42.5'') (JNum (Fin 1))"
    "openPrice ?t = resolveNumber parsing_host JNull (JStr ''7'')"
    "highPrice ?t = resolveNumber parsing_host (JBool True) JUndefined"
    "lowPrice ?t = resolveNumber parsing_host JUndefined (JNum (Fin 3))"
    "volume24 ?t = resolveNumber parsing_host (JStr ''n/a'') JUndefined"
    "quoteVolume ?t = resolveNumber parsing_host JUndefined JUndefined"
    using total by (simp_all add: Let_def nested_ticker_def js_or_def)
  have r1: "resolveNumber parsing_host JUndefined JUndefined = JNum (Fin 0)"
    using total[where v = JUndefined] absent by blast
  have r2: "resolveNumber parsing_host (JStr ''1e999'') JUndefined = JNum (Fin 0)"
    using total[where str = "''1e999''" and fb = JUndefined]
    by (simp add: parsing_host_def)
  have r3: "resolveNumber parsing_host (JStr ''42.5'') (JNum (Fin 1)) = JNum (Fin 42.5)"
    using total[where str = "''42.5''" and fb = "JNum (Fin 1)"]
    by (simp add: parsing_host_def)
  have r4: "resolveNumber parsing_host JNull (JStr ''7'') = JNum (Fin 7)"
    using total[where v = JNull and str = "''7''"] absent
    by (simp add: parsing_host_def)
  have r5: "resolveNumber parsing_host (JBool True) JUndefined = JNum (Fin 1)"
    using total[where b = True and fb = JUndefined] by simp
  have r6: "resolveNumber parsing_host JUndefined (JNum (Fin 3)) = JNum (Fin 3)"
    using total[where v = JUndefined and x = 3] absent by blast
  have r7: "resolveNumber parsing_host (JStr ''n/a'') JUndefined = JNum (Fin 0)"
    using total[where str = "''n/a''" and fb = JUndefined]
    by (simp add: parsing_host_def example_host_def)
  have sy: "tickerSymbol_of ?m = JStr ''BTCUSDT''"
    by (simp add: nested_ticker_def tickerSymbol_of_def js_or_def)
  have old: "tickerData ticker_session ''BTCUSDT'' =
      Some \<lparr>priceChange = JNum (Fin 1), priceChangePercent = JNum (Fin 1),
           lastPrice = JNum (Fin 100), openPrice = JNum (Fin 99),
           highPrice = JNum (Fin 101), lowPrice = JNum (Fin 98),
           volume24 = JNum (Fin 5), quoteVolume = JNum (Fin 500)\<rparr>"
    by (simp add: ticker_session_def)
  have num: "tickers_numeric (tickerData ticker_session)"
    by (simp add: tickers_numeric_def numeric_def ticker_session_def)
  then have kept: "tickers_numeric (tickerData (snd (run parsing_host ticker_session ?evs)))"
    using total by blast
  have "tickerData (on_ticker parsing_host ?m ticker_session) ''BTCUSDT'' = Some ?t"
    using old f(2,3) r2 r3
    by (simp add: on_ticker_def ticker_updater_def sy js_sub_def num_sub_def)
  then show ?thesis
    using f r1 r2 r3 r4 r5 r6 r7 sy num kept by simp
qed

section \<open>Which trade messages are accepted\<close>

lemma accept_tick_counter:
  "tickCounterRef (snd (accept_tick h now message symbol p s)) = tickCounterRef s + 1"
  by (simp add: accept_tick_def Let_def split: option.splits)

lemma onmessage_trade:
  assumes "get_prop message ''type'' = JStr ''trade'' \<or> get_prop message ''type'' = JStr ''tick''"
  shows "onmessage h now message s = on_trade h now message s"
proof -
  have "message \<noteq> JNull" "message \<noteq> JUndefined" using assms by auto
  then show ?thesis using assms by (auto simp: onmessage_def Let_def)
qed

text \<open>
  C9 (as amended).  A trade or tick message changes the state only if its symbol is
  a non-empty string of the selected symbols and its price is a JavaScript number
  (\<open>typeof\<close> number, which \<open>Infinity\<close> is too); every such message is counted.  Any
  other trade or tick message is dropped with the state as it was.
\<close>

theorem trade_acceptance:
  assumes "get_prop message ''type'' = JStr ''trade'' \<or> get_prop message ''type'' = JStr ''tick''"
  shows "(snd (onmessage h now message s) \<noteq> s \<longrightarrow>
            (\<exists>symbol p. tickSymbol_of message = JStr symbol \<and> symbol \<noteq> []
               \<and> symbol \<in> set (selectedSymbols s) \<and> tickPrice_of message = JNum p))
       \<and> ((\<exists>symbol p. tickSymbol_of message = JStr symbol \<and> symbol \<noteq> []
               \<and> symbol \<in> set (selectedSymbols s) \<and> tickPrice_of message = JNum p) \<longrightarrow>
            tickCounterRef (snd (onmessage h now message s)) = tickCounterRef s + 1)
       \<and> (fst (onmessage h now message s) = Dropped \<longrightarrow> snd (onmessage h now message s) = s)"
proof -
  let ?r = "on_trade h now message s"
  have eq: "onmessage h now message s = ?r" by (rule onmessage_trade[OF assms])
  have r: "?r = (fst ?r, snd ?r)" by simp
  note cases = on_trade_cases[OF r]
  have a: "snd ?r \<noteq> s \<longrightarrow>
            (\<exists>symbol p. tickSymbol_of message = JStr symbol \<and> symbol \<noteq> []
               \<and> symbol \<in> set (selectedSymbols s) \<and> tickPrice_of message = JNum p)"
    using cases by blast
  have b: "tickCounterRef (snd ?r) = tickCounterRef s + 1"
    if "tickSymbol_of message = JStr symbol" "symbol \<noteq> []"
       "symbol \<in> set (selectedSymbols s)" "tickPrice_of message = JNum p" for symbol p
  proof -
    have "?r = accept_tick h now message symbol p s"
      using that by (simp add: on_trade_def Let_def)
    then show ?thesis by (simp add: accept_tick_counter)
  qed
  have c: "fst ?r = Dropped \<longrightarrow> snd ?r = s"
  proof
    assume d: "fst ?r = Dropped"
    from cases show "snd ?r = s"
    proof (elim disjE exE conjE)
      fix symbol p
      assume "accept_tick h now message symbol p s = (fst ?r, snd ?r)"
      then have "accept_tick h now message symbol p s = (Dropped, snd ?r)" using d by simp
      from accept_tick_cases[OF this] show ?thesis by simp
    qed simp
  qed
  show ?thesis using a b c unfolding eq by blast
qed

theorem trade_acceptance_witness:
  "(get_prop (trade_message ''BTCUSDT'' (Fin 100) 1 0) ''type'' = JStr ''trade''
      \<or> get_prop (trade_message ''BTCUSDT'' (Fin 100) 1 0) ''type'' = JStr ''tick'')
   \<and> tickSymbol_of (trade_message ''BTCUSDT'' (Fin 100) 1 0) = JStr ''BTCUSDT''
   \<and> ''BTCUSDT'' \<in> set (selectedSymbols minute_session)
   \<and> tickPrice_of (trade_message ''BTCUSDT'' (Fin 100) 1 0) = JNum (Fin 100)
   \<and> tickCounterRef (snd (onmessage example_host 1000
        (trade_message ''BTCUSDT'' (Fin 100) 1 0) minute_session)) = 1
   \<and> fst (onmessage example_host 1000 (trade_message ''ETHUSDT'' (Fin 100) 1 0) minute_session)
       = Dropped
   \<and> snd (onmessage example_host 1000 (trade_message ''ETHUSDT'' (Fin 100) 1 0) minute_session)
       = minute_session"
proof -
  let ?m = "trade_message ''BTCUSDT'' (Fin 100) 1 0"
  let ?e = "trade_message ''ETHUSDT'' (Fin 100) 1 0"
  have ty: "get_prop ?m ''type'' = JStr ''trade'' \<or> get_prop ?m ''type'' = JStr ''tick''"
    and ty': "get_prop ?e ''type'' = JStr ''trade'' \<or> get_prop ?e ''type'' = JStr ''tick''"
    by (simp_all add: trade_message_def)
  have sy: "tickSymbol_of ?m = JStr ''BTCUSDT''" and pr: "tickPrice_of ?m = JNum (Fin 100)"
    by (simp_all add: trade_message_def message_defs)
  have sel: "''BTCUSDT'' \<in> set (selectedSymbols minute_session)"
    and zero: "tickCounterRef minute_session = 0"
    by (simp_all add: example_defs)
  have "tickCounterRef (snd (onmessage example_host 1000 ?m minute_session)) = 1"
    using trade_acceptance[OF ty, of example_host 1000 minute_session] sy pr sel zero by simp
  moreover have d: "fst (onmessage example_host 1000 ?e minute_session) = Dropped"
    by (simp add: handler_defs message_defs example_defs)
  moreover have "snd (onmessage example_host 1000 ?e minute_session) = minute_session"
    using trade_acceptance[OF ty', of example_host 1000 minute_session] d by blast
  ultimately show ?thesis using ty sy pr sel by blast
qed

text \<open>
  C9 as stated fails: the price \<open>1e999\<close> parses to \<open>Infinity\<close>, which is not
  finite, and the message is accepted and counted.
\<close>

theorem trade_acceptance_counterexample:
  "tickPrice_of (trade_message ''BTCUSDT'' PInf 1 0) = JNum PInf
   \<and> \<not> isFinite PInf
   \<and> tickCounterRef (snd (onmessage example_host 1000 (trade_message ''BTCUSDT'' PInf 1 0)
        minute_session)) = 1
   \<and> tickCounterRef minute_session = 0"
  by (simp add: handler_defs message_defs example_defs bucket_defs store_defs)

section \<open>Starting a stream\<close>

lemma handleStartStream_refs:
  "tickCounterRef (handleStartStream ok s) = tickCounterRef s"
  "pendingUpdatesRef (handleStartStream ok s) = pendingUpdatesRef s"
  "lastPriceUpdateRef (handleStartStream ok s) = lastPriceUpdateRef s"
  "lastTickUpdateRef (handleStartStream ok s) = lastTickUpdateRef s"
  by (simp_all add: handleStartStream_def)

lemma before_stop_eval:
  "tickCount before_stop = 1" "tickCounterRef before_stop = 1"
  "lastTickUpdateRef before_stop = 1000"
  "selectedSymbols before_stop = [''BTCUSDT'']"
  "pendingUpdatesRef before_stop ''BTCUSDT'' =
     Some \<lparr>price = Fin 100, qty = JNum (Fin 1), tick_ts = JNum (Fin 0), time = Some 0\<rparr>"
  by (simp_all add: before_stop_def handler_defs message_defs example_defs bucket_defs
      store_defs)

text \<open>
  C4.  \<open>handleStartStream\<close> empties the candle stores, the ticker snapshots and the
  analytics snapshot and sets the displayed tick count to 0, and leaves the refs as
  they were: the counter ref and the pending update of the session before are still
  there, and the first tick accepted after the restart displays the count 2.
\<close>

theorem restart_keeps_counter:
  "tickCount restarted = 0 \<and> priceData restarted = Map.empty
   \<and> tickerData restarted = Map.empty \<and> analyticsData restarted = JNull
   \<and> tickCounterRef restarted = 1
   \<and> pendingUpdatesRef restarted ''BTCUSDT'' =
       Some \<lparr>price = Fin 100, qty = JNum (Fin 1), tick_ts = JNum (Fin 0), time = Some 0\<rparr>
   \<and> tickCount after_restart = 2"
proof -
  have r: "tickCount restarted = 0" "priceData restarted = Map.empty"
    "tickerData restarted = Map.empty" "analyticsData restarted = JNull"
    "tickCounterRef restarted = 1" "lastTickUpdateRef restarted = 1000"
    "selectedSymbols restarted = [''BTCUSDT'']"
    "pendingUpdatesRef restarted ''BTCUSDT'' =
       Some \<lparr>price = Fin 100, qty = JNum (Fin 1), tick_ts = JNum (Fin 0), time = Some 0\<rparr>"
    by (simp_all add: restarted_def handleStartStream_def handleStopStream_def before_stop_eval)
  have "tickCount after_restart = 2"
    using r by (simp add: after_restart_def handler_defs message_defs trade_message_def
        split: option.splits)
  then show ?thesis using r by simp
qed

section \<open>Analytics and the number of symbols\<close>









text \<open>
  Two more ways in which a snapshot is stored while the number of symbols is not 2.
  An answer is stored in the state of the moment it arrives: the request that the
  refresh of a two-symbol render made settles after the selection went to one symbol
  and the snapshot was cleared, and the snapshot of the pair is back.  And the
  refresh tests the snapshot of its render, not the stored one: in a session with one
  symbol that started without a snapshot, the refresh leaves the snapshot that
  \<open>fetchData\<close> stored.
\<close>

lemma refresh_in_flight:
  "fst (fetchAnalytics_call pair_session pair_session) =
     Some (''BTCUSDT-ETHUSDT'', ''1m'', 20, ''OLS'')
   \<and> analyticsData (snd (fetchAnalytics_call after_deselect after_deselect)) = JNull
   \<and> length (selectedSymbols (snd (fetchAnalytics_call after_deselect after_deselect))) = 1
   \<and> analyticsData
       (fetchAnalytics_settled
          (answer_of echo_analytics (''BTCUSDT-ETHUSDT'', ''1m'', 20, ''OLS''))
          (snd (fetchAnalytics_call after_deselect after_deselect)))
       = JObj [(''pair'', JStr ''BTCUSDT-ETHUSDT'')]"
  by (simp add: fetchAnalytics_call_def fetchAnalytics_settled_def answer_of_def
      echo_analytics_def pair_session_def after_deselect_def example_defs)

lemma refresh_stale_closure:
  "analyticsData minute_session = JNull
   \<and> fetchAnalytics_call minute_session
       (fetchData_analytics_settled
          (answer_of echo_analytics (''BTCUSDT-BTCUSDT'', ''1m'', 20, ''OLS''))
          minute_session)
     = (None,
        minute_session\<lparr>analyticsData := JObj [(''pair'', JStr ''BTCUSDT-BTCUSDT'')]\<rparr>)"
  by (simp add: fetchAnalytics_call_def fetchData_analytics_settled_def answer_of_def
      echo_analytics_def example_defs)

section \<open>The throttle\<close>

lemma accept_tick_last:
  assumes "accept_tick h now message symbol p s = (out, s')"
  shows "(out = Throttled symbol \<and> lastPriceUpdateRef s' = lastPriceUpdateRef s)
       \<or> ((out = Threw symbol \<or> (\<exists>b. out = Flushed symbol (pending_of h message p) b))
           \<and> lastPriceUpdateRef s' = (lastPriceUpdateRef s)(symbol \<mapsto> now))"
proof -
  let ?lastUpdate = "case lastPriceUpdateRef s symbol of None \<Rightarrow> 0 | Some t \<Rightarrow> t"
  show ?thesis
  proof (cases "now - ?lastUpdate < PRICE_UPDATE_THROTTLE_MS")
    case True
    then show ?thesis using assms by (auto simp: accept_tick_def Let_def)
  next
    case False
    show ?thesis
    proof (cases "getBucketedTimestamp (localTZA h) (time (pending_of h message p))
                    (effectiveTimeframe s)")
      case None
      then show ?thesis using assms False by (auto simp: accept_tick_def Let_def)
    next
      case (Some b)
      then show ?thesis using assms False by (auto simp: accept_tick_def Let_def)
    qed
  qed
qed

lemma accept_tick_throttled:
  assumes "lastPriceUpdateRef s symbol = Some t" "now - t < PRICE_UPDATE_THROTTLE_MS"
  shows "fst (accept_tick h now message symbol p s) = Throttled symbol"
  using assms by (simp add: accept_tick_def Let_def)

text \<open>What one message does to the throttle of a symbol.\<close>

lemma onmessage_throttle:
  assumes "onmessage h now message s = (out, s')"
  shows "((\<forall>pu b. out \<noteq> Flushed symbol pu b)
            \<and> lastPriceUpdateRef s' symbol = lastPriceUpdateRef s symbol)
       \<or> (tick_for symbol message \<and> lastPriceUpdateRef s' symbol = Some now
           \<and> (\<forall>t. lastPriceUpdateRef s symbol = Some t \<longrightarrow>
                  \<not> now - t < PRICE_UPDATE_THROTTLE_MS))"
proof (cases "get_prop message ''type'' = JStr ''trade'' \<or> get_prop message ''type'' = JStr ''tick''")
  case False
  have "lastPriceUpdateRef (on_ticker h message s) = lastPriceUpdateRef s"
    by (simp add: on_ticker_def Let_def)
  then have "out = Other \<and> lastPriceUpdateRef s' = lastPriceUpdateRef s"
    using assms False by (auto simp: onmessage_def Let_def split: if_splits)
  then show ?thesis by simp
next
  case True
  then have tr: "on_trade h now message s = (out, s')"
    using assms onmessage_trade by simp
  consider (dropped) "out = Dropped" "s' = s"
    | (accepted) sy p where "tickSymbol_of message = JStr sy"
        "accept_tick h now message sy p s = (out, s')"
    using on_trade_cases[OF tr] by blast
  then show ?thesis
  proof cases
    case dropped
    then show ?thesis by simp
  next
    case accepted
    show ?thesis
    proof (cases "sy = symbol")
      case False
      from accept_tick_last[OF accepted(2)] False show ?thesis by auto
    next
      case same: True
      have tf: "tick_for symbol message"
        using True accepted(1) same by (simp add: tick_for_def)
      consider (held) "out = Throttled sy" "lastPriceUpdateRef s' = lastPriceUpdateRef s"
        | (passed) "out \<noteq> Throttled sy"
            "lastPriceUpdateRef s' = (lastPriceUpdateRef s)(sy \<mapsto> now)"
        using accept_tick_last[OF accepted(2)] by auto
      then show ?thesis
      proof cases
        case held
        then show ?thesis by simp
      next
        case passed
        have "\<not> now - t < PRICE_UPDATE_THROTTLE_MS"
          if "lastPriceUpdateRef s symbol = Some t" for t
        proof
          assume "now - t < PRICE_UPDATE_THROTTLE_MS"
          then have "fst (accept_tick h now message sy p s) = Throttled sy"
            using that same accept_tick_throttled by simp
          then show False using accepted(2) passed(1) by simp
        qed
        then show ?thesis using tf passed(2) same by simp
      qed
    qed
  qed
qed

lemma burst_tail: "burst symbol (ev # evs) \<Longrightarrow> burst symbol evs"
  by (auto simp: burst_def)

text \<open>After a flush at \<open>t\<close>, ticks less than an interval later are held back.\<close>

lemma no_flush_after:
  assumes "lastPriceUpdateRef s symbol = Some t"
      and "\<forall>(now, m) \<in> set evs. tick_for symbol m \<longrightarrow> now - t < PRICE_UPDATE_THROTTLE_MS"
  shows "flushes symbol (fst (run h s evs)) = []"
  using assms
proof (induction evs arbitrary: s)
  case Nil
  then show ?case by simp
next
  case (Cons ev evs)
  obtain now message where ev: "ev = (now, message)" by (cases ev)
  obtain out s' where st: "onmessage h now message s = (out, s')"
    by (cases "onmessage h now message s")
  have near: "tick_for symbol message \<longrightarrow> now - t < PRICE_UPDATE_THROTTLE_MS"
    using Cons.prems(2) ev by simp
  from onmessage_throttle[OF st, of symbol] near Cons.prems(1)
  have keep: "(\<forall>pu b. out \<noteq> Flushed symbol pu b)" "lastPriceUpdateRef s' symbol = Some t"
    by auto
  have "flushes symbol (fst (run h s' evs)) = []"
    using Cons.IH[OF keep(2)] Cons.prems(2) by simp
  moreover have "flushes symbol (out # outs) = flushes symbol outs" for outs
    using keep(1) by (cases out) auto
  ultimately show ?case using ev st by (simp add: split_beta)
qed

lemma at_most_one_flush:
  assumes "burst symbol evs"
  shows "length (flushes symbol (fst (run h s evs))) \<le> 1"
  using assms
proof (induction evs arbitrary: s)
  case Nil
  then show ?case by simp
next
  case (Cons ev evs)
  obtain now message where ev: "ev = (now, message)" by (cases ev)
  obtain out s' where st: "onmessage h now message s = (out, s')"
    by (cases "onmessage h now message s")
  have run: "fst (run h s (ev # evs)) = out # fst (run h s' evs)"
    using ev st by (simp add: split_beta)
  from onmessage_throttle[OF st, of symbol] show ?case
  proof (elim disjE conjE)
    assume "\<forall>pu b. out \<noteq> Flushed symbol pu b"
    then have "flushes symbol (out # outs) = flushes symbol outs" for outs
      by (cases out) auto
    then show ?thesis
      using Cons.IH[OF burst_tail[OF Cons.prems], of s'] run by simp
  next
    assume tf: "tick_for symbol message" and l: "lastPriceUpdateRef s' symbol = Some now"
    have "\<forall>(now', m') \<in> set evs. tick_for symbol m' \<longrightarrow> now' - now < PRICE_UPDATE_THROTTLE_MS"
      using Cons.prems tf ev by (auto simp: burst_def)
    then have "flushes symbol (fst (run h s' evs)) = []"
      using no_flush_after[OF l] by blast
    then have "length (flushes symbol (out # fst (run h s' evs))) \<le> 1"
      by (cases out) auto
    then show ?thesis using run by simp
  qed
qed

text \<open>A flush carries the values of the message that is being handled.\<close>

lemma onmessage_flush_values:
  assumes "onmessage h now message s = (Flushed symbol pu b, s')"
  shows "tick_for symbol message \<and> JNum (price pu) = tickPrice_of message
       \<and> qty pu = tickQty_of message \<and> tick_ts pu = tickTs_of message"
proof -
  have ty: "get_prop message ''type'' = JStr ''trade'' \<or> get_prop message ''type'' = JStr ''tick''"
  proof (rule ccontr)
    assume "\<not> ?thesis"
    then have "fst (onmessage h now message s) = Other"
      by (auto simp: onmessage_def Let_def)
    then show False using assms by simp
  qed
  then have "on_trade h now message s = (Flushed symbol pu b, s')"
    using assms onmessage_trade by simp
  from on_trade_cases[OF this] obtain sy p where
    a: "tickSymbol_of message = JStr sy" "tickPrice_of message = JNum p"
       "accept_tick h now message sy p s = (Flushed symbol pu b, s')"
    by auto
  from accept_tick_cases[OF a(3)] have "sy = symbol" "pu = pending_of h message p"
    by auto
  then show ?thesis using a ty by (simp add: tick_for_def pending_of_def Let_def)
qed

lemma run_length: "length (fst (run h s evs)) = length evs"
  by (induction evs arbitrary: s) (auto simp: split_beta)

lemma run_flush_values:
  assumes "i < length evs" "fst (run h s evs) ! i = Flushed symbol pu b"
  shows "tick_for symbol (snd (evs ! i)) \<and> JNum (price pu) = tickPrice_of (snd (evs ! i))
       \<and> qty pu = tickQty_of (snd (evs ! i)) \<and> tick_ts pu = tickTs_of (snd (evs ! i))"
  using assms
proof (induction evs arbitrary: s i)
  case Nil
  then show ?case by simp
next
  case (Cons ev evs)
  obtain now message where ev: "ev = (now, message)" by (cases ev)
  obtain out s' where st: "onmessage h now message s = (out, s')"
    by (cases "onmessage h now message s")
  have run: "fst (run h s (ev # evs)) = out # fst (run h s' evs)"
    using ev st by (simp add: split_beta)
  show ?case
  proof (cases i)
    case 0
    then have "out = Flushed symbol pu b" using Cons.prems(2) run by simp
    then show ?thesis using onmessage_flush_values[of h now message s symbol pu b s'] st ev 0
      by simp
  next
    case (Suc j)
    then have "j < length evs" "fst (run h s' evs) ! j = Flushed symbol pu b"
      using Cons.prems run by simp_all
    from Cons.IH[OF this] show ?thesis using Suc by simp
  qed
qed

text \<open>
  Among messages in which the ticks of a symbol arrive less than 100 ms apart from
  each other, at most one tick of the symbol is passed to the candle store, and what
  is passed is the price, quantity and time stamp of the tick whose arrival is being
  handled.
\<close>

lemma burst_flushes_once:
  assumes "burst symbol evs"
  shows "length (flushes symbol (fst (run h s evs))) \<le> 1
       \<and> (\<forall>i < length evs. \<forall>pu b.
            fst (run h s evs) ! i = Flushed symbol pu b \<longrightarrow>
              tick_for symbol (snd (evs ! i))
              \<and> JNum (price pu) = tickPrice_of (snd (evs ! i))
              \<and> qty pu = tickQty_of (snd (evs ! i))
              \<and> tick_ts pu = tickTs_of (snd (evs ! i)))"
  using at_most_one_flush[OF assms] run_flush_values by blast

text \<open>Every accepted tick is written to the pending slot of its symbol.\<close>

lemma accept_tick_pending:
  "pendingUpdatesRef (snd (accept_tick h now message symbol p s)) symbol =
     Some (pending_of h message p)"
  by (simp add: accept_tick_def Let_def split: option.splits)

lemma two_ticks_run:
  "fst (run example_host minute_session two_ticks) =
     [Flushed ''BTCUSDT''
        \<lparr>price = Fin 100, qty = JNum (Fin 1), tick_ts = JNum (Fin 0), time = Some 0\<rparr> 0,
      Throttled ''BTCUSDT'']"
  by (simp add: two_ticks_def handler_defs message_defs example_defs bucket_defs store_defs
      split_beta)

lemma two_ticks_state:
  "pendingUpdatesRef (snd (run example_host minute_session two_ticks)) ''BTCUSDT'' =
     Some \<lparr>price = Fin 105, qty = JNum (Fin 2), tick_ts = JNum (Fin 50), time = Some 50\<rparr>"
  "priceData (snd (run example_host minute_session two_ticks)) ''BTCUSDT'' =
     Some [\<lparr>ts = 0, open' = Fin 100, high = Fin 100, low = Fin 100, close = Fin 100,
            volume = JNum (Fin 1)\<rparr>]"
  by (simp_all add: two_ticks_def handler_defs message_defs example_defs bucket_defs
      store_defs split_beta)

lemma three_ticks_run:
  "fst (run example_host minute_session three_ticks) =
     [Flushed ''BTCUSDT''
        \<lparr>price = Fin 100, qty = JNum (Fin 1), tick_ts = JNum (Fin 0), time = Some 0\<rparr> 0,
      Throttled ''BTCUSDT'',
      Flushed ''BTCUSDT''
        \<lparr>price = Fin 103, qty = JNum (Fin 4), tick_ts = JNum (Fin 200), time = Some 200\<rparr> 0]"
  "priceData (snd (run example_host minute_session three_ticks)) ''BTCUSDT'' =
     Some [\<lparr>ts = 0, open' = Fin 100, high = Fin 103, low = Fin 100, close = Fin 103,
            volume = JNum (Fin 5)\<rparr>]"
  by (simp_all add: three_ticks_def two_ticks_def handler_defs message_defs example_defs
      bucket_defs store_defs split_beta)

text \<open>A tick that arrives exactly 100 ms after a flush is passed on, not held back.\<close>

lemma throttle_boundary:
  "fst (run example_host minute_session
          [(1000, trade_message ''BTCUSDT'' (Fin 100) 1 0),
           (1099, trade_message ''BTCUSDT'' (Fin 101) 1 99),
           (1100, trade_message ''BTCUSDT'' (Fin 102) 1 100)]) =
     [Flushed ''BTCUSDT''
        \<lparr>price = Fin 100, qty = JNum (Fin 1), tick_ts = JNum (Fin 0), time = Some 0\<rparr> 0,
      Throttled ''BTCUSDT'',
      Flushed ''BTCUSDT''
        \<lparr>price = Fin 102, qty = JNum (Fin 1), tick_ts = JNum (Fin 100), time = Some 100\<rparr> 0]"
  by (simp add: handler_defs message_defs example_defs bucket_defs store_defs split_beta)

text \<open>
  C1.  Throttle: the claim is that of the ticks of a burst the last one reaches the
  candle store.  The handler does not do that.  Of two ticks 50 ms apart after a
  quiet time, the first one (price 100, quantity 1) is passed to the candle store when
  it arrives; the last one (price 105, quantity 2) is written to the pending slot and
  held back, and nothing reads the slot afterwards: the candle keeps close 100 and
  volume 1, and when a third tick (price 103, quantity 4) arrives 150 ms later, that
  tick alone is passed on, so that the candle has high 103 and volume 5, and the
  price 105 and the quantity 2 never reach the store.
\<close>

theorem throttle_drops_last_tick:
  "fst (two_ticks ! 1) - fst (two_ticks ! 0) < PRICE_UPDATE_THROTTLE_MS
   \<and> fst (run example_host minute_session two_ticks) =
       [Flushed ''BTCUSDT''
          \<lparr>price = Fin 100, qty = JNum (Fin 1), tick_ts = JNum (Fin 0), time = Some 0\<rparr> 0,
        Throttled ''BTCUSDT'']
   \<and> flushes ''BTCUSDT'' (fst (run example_host minute_session two_ticks)) =
       [\<lparr>price = Fin 100, qty = JNum (Fin 1), tick_ts = JNum (Fin 0), time = Some 0\<rparr>]
   \<and> tickPrice_of (snd (last two_ticks)) = JNum (Fin 105)
   \<and> tickQty_of (snd (last two_ticks)) = JNum (Fin 2)
   \<and> tickTs_of (snd (last two_ticks)) = JNum (Fin 50)
   \<and> pendingUpdatesRef (snd (run example_host minute_session two_ticks)) ''BTCUSDT'' =
       Some \<lparr>price = Fin 105, qty = JNum (Fin 2), tick_ts = JNum (Fin 50), time = Some 50\<rparr>
   \<and> priceData (snd (run example_host minute_session two_ticks)) ''BTCUSDT'' =
       Some [\<lparr>ts = 0, open' = Fin 100, high = Fin 100, low = Fin 100, close = Fin 100,
              volume = JNum (Fin 1)\<rparr>]
   \<and> flushes ''BTCUSDT'' (fst (run example_host minute_session three_ticks)) =
       [\<lparr>price = Fin 100, qty = JNum (Fin 1), tick_ts = JNum (Fin 0), time = Some 0\<rparr>,
        \<lparr>price = Fin 103, qty = JNum (Fin 4), tick_ts = JNum (Fin 200), time = Some 200\<rparr>]
   \<and> priceData (snd (run example_host minute_session three_ticks)) ''BTCUSDT'' =
       Some [\<lparr>ts = 0, open' = Fin 100, high = Fin 103, low = Fin 100, close = Fin 103,
              volume = JNum (Fin 5)\<rparr>]"
proof -
  have "fst (two_ticks ! 1) - fst (two_ticks ! 0) < PRICE_UPDATE_THROTTLE_MS"
    by (simp add: two_ticks_def PRICE_UPDATE_THROTTLE_MS_def)
  moreover have "tickPrice_of (snd (last two_ticks)) = JNum (Fin 105)"
    "tickQty_of (snd (last two_ticks)) = JNum (Fin 2)"
    "tickTs_of (snd (last two_ticks)) = JNum (Fin 50)"
    by (simp_all add: two_ticks_def trade_message_def message_defs)
  ultimately show ?thesis
    by (simp add: two_ticks_run two_ticks_state three_ticks_run)
qed

section \<open>Buckets\<close>

lemma floor_refine:
  fixes q k m :: int
  assumes "k dvd m" "0 < k"
  shows "(q div m) * m + ((q mod m) div k) * k = (q div k) * k"
proof -
  obtain c where c: "m = k * c" using assms(1) by (auto simp: dvd_def)
  have "q div k = ((q div m) * m + q mod m) div k" by simp
  also have "\<dots> = ((q div m) * c) + (q mod m) div k"
    using assms(2) c by (simp add: div_plus_div_distrib_dvd_left mult.assoc)
  finally show ?thesis using c by (simp add: algebra_simps)
qed

lemma hms:
  fixes q :: int
  shows "(q div 60 div 60 div 24) * 86400 + (q div 60 div 60 mod 24) * 3600
           + (q div 60 mod 60) * 60 + q mod 60 = q"
proof -
  define a r0 where "a = q div 60" and "r0 = q mod 60"
  define b r1 where "b = a div 60" and "r1 = a mod 60"
  define c r2 where "c = b div 24" and "r2 = b mod 24"
  have q: "q = a * 60 + r0" by (simp add: a_def r0_def)
  have a: "a = b * 60 + r1" by (simp add: b_def r1_def)
  have b: "b = c * 24 + r2" by (simp add: c_def r2_def)
  have "c * 86400 + r2 * 3600 + r1 * 60 + r0 = q"
    by (simp add: q a b algebra_simps)
  then show ?thesis
    by (simp add: a_def r0_def b_def r1_def c_def r2_def)
qed

lemma div_chain:
  fixes t :: int
  shows "t div 60000 = t div 1000 div 60"
    and "t div 3600000 = t div 1000 div 60 div 60"
    and "t div 86400000 = t div 1000 div 60 div 60 div 24"
proof -
  show 1: "t div 60000 = t div 1000 div 60"
    using zdiv_zmult2_eq[of 60 t 1000] by simp
  show 2: "t div 3600000 = t div 1000 div 60 div 60"
    using zdiv_zmult2_eq[of 60 t 60000] 1 by simp
  show "t div 86400000 = t div 1000 div 60 div 60 div 24"
    using zdiv_zmult2_eq[of 24 t 3600000] 2 by simp
qed

lemma date_closed:
  "MakeDate (Day t) (MakeTime (HourFromTime t) (MinFromTime t) sec ms)
     = (t div 60000) * 60000 + sec * 1000 + ms"
proof -
  have "(t div 1000 div 60 div 60 div 24) * 86400 + (t div 1000 div 60 div 60 mod 24) * 3600
           + (t div 1000 div 60 mod 60) * 60 + (t div 1000) mod 60 = t div 1000"
    by (rule hms)
  moreover have "(t div 1000 div 60) * 60 + (t div 1000) mod 60 = t div 1000" by simp
  ultimately have "(t div 1000 div 60 div 60 div 24) * 86400
      + (t div 1000 div 60 div 60 mod 24) * 3600 + (t div 1000 div 60 mod 60) * 60
      = (t div 1000 div 60) * 60"
    by linarith
  then have "(t div 1000 div 60 div 60 div 24) * 86400000
      + (t div 1000 div 60 div 60 mod 24) * 3600000 + (t div 1000 div 60 mod 60) * 60000
      = (t div 1000 div 60) * 60000"
    by linarith
  then show ?thesis
    by (simp add: MakeDate_def MakeTime_def Day_def HourFromTime_def MinFromTime_def
        msPerDay_def msPerHour_def msPerMinute_def msPerSecond_def div_chain)
qed

lemma hour_closed:
  "MakeDate (Day t) (MakeTime (HourFromTime t) mi sec ms)
     = (t div 3600000) * 3600000 + mi * 60000 + sec * 1000 + ms"
proof -
  have "(t div 3600000 div 24) * 24 + (t div 3600000) mod 24 = t div 3600000" by simp
  then have "(t div 3600000 div 24) * 86400000 + ((t div 3600000) mod 24) * 3600000
      = (t div 3600000) * 3600000"
    by linarith
  moreover have "t div 86400000 = t div 3600000 div 24"
    using zdiv_zmult2_eq[of 24 t 3600000] by simp
  ultimately show ?thesis
    by (simp add: MakeDate_def MakeTime_def Day_def HourFromTime_def
        msPerDay_def msPerHour_def msPerMinute_def msPerSecond_def)
qed

lemma day_closed:
  "MakeDate (Day t) (MakeTime hr mi sec ms)
     = (t div 86400000) * 86400000 + hr * 3600000 + mi * 60000 + sec * 1000 + ms"
  by (simp add: MakeDate_def MakeTime_def Day_def msPerDay_def msPerHour_def
      msPerMinute_def msPerSecond_def)

lemma second_closed:
  "(t div 60000) * 60000 + SecFromTime t * 1000 = (t div 1000) * 1000"
proof -
  have "(t div 1000 div 60) * 60 + (t div 1000) mod 60 = t div 1000" by simp
  then have "(t div 1000 div 60) * 60000 + ((t div 1000) mod 60) * 1000 = (t div 1000) * 1000"
    by linarith
  then show ?thesis by (simp add: SecFromTime_def msPerSecond_def div_chain)
qed

lemma minute_closed:
  "(t div 3600000) * 3600000 + MinFromTime t * 60000 = (t div 60000) * 60000"
proof -
  have "(t div 60000 div 60) * 60 + (t div 60000) mod 60 = t div 60000" by simp
  then have "(t div 60000 div 60) * 3600000 + ((t div 60000) mod 60) * 60000
      = (t div 60000) * 60000"
    by linarith
  moreover have "t div 3600000 = t div 60000 div 60"
    using zdiv_zmult2_eq[of 60 t 60000] by simp
  ultimately show ?thesis by (simp add: MinFromTime_def msPerMinute_def)
qed

lemma hour_of_day_closed:
  "(t div 86400000) * 86400000 + HourFromTime t * 3600000 = (t div 3600000) * 3600000"
  using hour_closed[of t 0 0 0] day_closed[of t "HourFromTime t" 0 0 0] by simp

lemma components_range:
  "0 \<le> SecFromTime t" "SecFromTime t < 60" "0 \<le> MinFromTime t" "MinFromTime t < 60"
  "0 \<le> HourFromTime t" "HourFromTime t < 24"
  by (simp_all add: SecFromTime_def MinFromTime_def HourFromTime_def)

text \<open>The components of a time value floored to the second, the minute, the hour.\<close>

lemma floored_second:
  "(t div 1000 * 1000) div 60000 = t div 60000"
  "SecFromTime (t div 1000 * 1000) = SecFromTime t"
  "MinFromTime (t div 1000 * 1000) = MinFromTime t"
  "HourFromTime (t div 1000 * 1000) = HourFromTime t"
proof -
  have a: "(t div 1000 * 1000) div 1000 = t div 1000" by simp
  show b: "(t div 1000 * 1000) div 60000 = t div 60000"
    using div_chain(1)[of "t div 1000 * 1000"] a div_chain(1)[of t] by simp
  show "SecFromTime (t div 1000 * 1000) = SecFromTime t"
    by (simp add: SecFromTime_def msPerSecond_def)
  show "MinFromTime (t div 1000 * 1000) = MinFromTime t"
    using b by (simp add: MinFromTime_def msPerMinute_def)
  have "(t div 1000 * 1000) div 3600000 = t div 3600000"
    using div_chain(2)[of "t div 1000 * 1000"] a div_chain(2)[of t] by simp
  then show "HourFromTime (t div 1000 * 1000) = HourFromTime t"
    by (simp add: HourFromTime_def msPerHour_def)
qed

lemma floored_minute:
  "(t div 60000 * 60000) div 3600000 = t div 3600000"
  "SecFromTime (t div 60000 * 60000) = 0"
  "msFromTime (t div 60000 * 60000) = 0"
proof -
  have a: "(t div 60000 * 60000) div 60000 = t div 60000" by simp
  show "(t div 60000 * 60000) div 3600000 = t div 3600000"
    using zdiv_zmult2_eq[of 60 "t div 60000 * 60000" 60000] a
      zdiv_zmult2_eq[of 60 t 60000] by simp
  have "(t div 60000 * 60000) div 1000 = t div 60000 * 60" by simp
  then show "SecFromTime (t div 60000 * 60000) = 0"
    by (simp add: SecFromTime_def msPerSecond_def)
  show "msFromTime (t div 60000 * 60000) = 0"
    by (simp add: msFromTime_def msPerSecond_def)
qed

lemma floored_hour:
  "(t div 3600000 * 3600000) div 86400000 = t div 86400000"
  "MinFromTime (t div 3600000 * 3600000) = 0"
  "SecFromTime (t div 3600000 * 3600000) = 0"
  "msFromTime (t div 3600000 * 3600000) = 0"
proof -
  have a: "(t div 3600000 * 3600000) div 3600000 = t div 3600000" by simp
  show "(t div 3600000 * 3600000) div 86400000 = t div 86400000"
    using zdiv_zmult2_eq[of 24 "t div 3600000 * 3600000" 3600000] a
      zdiv_zmult2_eq[of 24 t 3600000] by simp
  have "(t div 3600000 * 3600000) div 60000 = t div 3600000 * 60" by simp
  then show "MinFromTime (t div 3600000 * 3600000) = 0"
    by (simp add: MinFromTime_def msPerMinute_def)
  have "(t div 3600000 * 3600000) div 1000 = t div 3600000 * 60 * 60" by simp
  then show "SecFromTime (t div 3600000 * 3600000) = 0"
    by (simp add: SecFromTime_def msPerSecond_def)
  show "msFromTime (t div 3600000 * 3600000) = 0"
    by (simp add: msFromTime_def msPerSecond_def)
qed

text \<open>Flooring to a divisor of a day stays within the range of valid dates.\<close>

lemma floor_in_range:
  fixes t X :: int
  assumes "0 < X" "X dvd 86400000" "\<bar>t\<bar> \<le> 8640000000000000"
  shows "- 8640000000000000 \<le> t div X * X" "t div X * X \<le> t"
proof -
  have "t div X * X + t mod X = t" by simp
  moreover have "0 \<le> t mod X" using assms(1) by simp
  ultimately show "t div X * X \<le> t" by linarith
  have "X dvd 8640000000000000" using assms(2) by (rule dvd_trans) simp
  then obtain c where c: "8640000000000000 = X * c" by (auto simp: dvd_def)
  have "- c * X \<le> t" using assms(3) c by (simp add: mult.commute)
  then have "(- c * X) div X \<le> t div X" by (rule zdiv_mono1) (rule assms(1))
  moreover have "(- c * X) div X = - c"
    using assms(1) by (intro nonzero_mult_div_cancel_right) simp
  ultimately have "- c \<le> t div X" by (simp only:)
  then have "(- c) * X \<le> t div X * X"
    using assms(1) by (intro mult_right_mono) simp_all
  then show "- 8640000000000000 \<le> t div X * X" using c by (simp add: mult.commute)
qed

lemma TimeClip_between:
  assumes "- 8640000000000000 \<le> lo" "lo \<le> x" "x \<le> t" "\<bar>t\<bar> \<le> 8640000000000000"
  shows "TimeClip x = Some x"
  using assms by (simp add: TimeClip_def)

lemma setUTCMilliseconds_floor:
  assumes "\<bar>t\<bar> \<le> 8640000000000000"
  shows "setUTCMilliseconds 0 t = Some (t div 1000 * 1000)"
proof -
  have "MakeDate (Day t) (MakeTime (HourFromTime t) (MinFromTime t) (SecFromTime t) 0)
          = t div 1000 * 1000"
    using date_closed[of t "SecFromTime t" 0] second_closed[of t] by simp
  moreover have "TimeClip (t div 1000 * 1000) = Some (t div 1000 * 1000)"
    using floor_in_range[of 1000 t] assms by (intro TimeClip_between[of "t div 1000 * 1000"]) simp_all
  ultimately show ?thesis by (simp add: setUTCMilliseconds_def)
qed

text \<open>\<open>setUTCSeconds(sec, 0)\<close> on a time value floored to the second.\<close>

lemma setUTCSeconds_floor:
  assumes "\<bar>t\<bar> \<le> 8640000000000000" "0 \<le> sec" "sec \<le> SecFromTime t"
  shows "setUTCSeconds sec 0 (t div 1000 * 1000) = Some (t div 60000 * 60000 + sec * 1000)"
proof -
  let ?x = "t div 60000 * 60000 + sec * 1000"
  have "MakeDate (Day (t div 1000 * 1000))
          (MakeTime (HourFromTime (t div 1000 * 1000)) (MinFromTime (t div 1000 * 1000)) sec 0)
        = ?x"
    using date_closed[of "t div 1000 * 1000" sec 0] floored_second(1)[of t] by simp
  moreover have "?x \<le> t"
    using second_closed[of t] floor_in_range(2)[of 1000 t] assms(3) by simp
  moreover have "- 8640000000000000 \<le> t div 60000 * 60000"
    using floor_in_range(1)[of 60000 t] assms(1) by simp
  ultimately show ?thesis
    using assms TimeClip_between[of "t div 60000 * 60000" ?x t]
    by (simp add: setUTCSeconds_def)
qed

text \<open>\<open>setUTCMinutes(mi)\<close> on a time value floored to the minute.\<close>

lemma setUTCMinutes_floor:
  assumes "\<bar>t\<bar> \<le> 8640000000000000" "0 \<le> mi" "mi \<le> MinFromTime t"
  shows "setUTCMinutes mi (t div 60000 * 60000) = Some (t div 3600000 * 3600000 + mi * 60000)"
proof -
  let ?b = "t div 60000 * 60000"
  let ?x = "t div 3600000 * 3600000 + mi * 60000"
  have "MakeDate (Day ?b) (MakeTime (HourFromTime ?b) mi (SecFromTime ?b) (msFromTime ?b)) = ?x"
    using hour_closed[of ?b mi 0 0] floored_minute[of t] by simp
  moreover have "?x \<le> t"
    using minute_closed[of t] floor_in_range(2)[of 60000 t] assms(3) by simp
  moreover have "- 8640000000000000 \<le> t div 3600000 * 3600000"
    using floor_in_range(1)[of 3600000 t] assms(1) by simp
  ultimately show ?thesis
    using assms TimeClip_between[of "t div 3600000 * 3600000" ?x t]
    by (simp add: setUTCMinutes_def)
qed

text \<open>\<open>setUTCHours(hr)\<close> on a time value floored to the hour.\<close>

lemma setUTCHours_floor:
  assumes "\<bar>t\<bar> \<le> 8640000000000000" "0 \<le> hr" "hr \<le> HourFromTime t"
  shows "setUTCHours hr (t div 3600000 * 3600000)
           = Some (t div 86400000 * 86400000 + hr * 3600000)"
proof -
  let ?b = "t div 3600000 * 3600000"
  let ?x = "t div 86400000 * 86400000 + hr * 3600000"
  have "MakeDate (Day ?b) (MakeTime hr (MinFromTime ?b) (SecFromTime ?b) (msFromTime ?b)) = ?x"
    using day_closed[of ?b hr 0 0 0] floored_hour[of t] by simp
  moreover have "?x \<le> t"
    using hour_of_day_closed[of t] floor_in_range(2)[of 3600000 t] assms(3) by simp
  moreover have "- 8640000000000000 \<le> t div 86400000 * 86400000"
    using floor_in_range(1)[of 86400000 t] assms(1) by simp
  ultimately show ?thesis
    using assms TimeClip_between[of "t div 86400000 * 86400000" ?x t]
    by (simp add: setUTCHours_def)
qed

lemma floor_to_bounds:
  assumes "0 \<le> x" "0 < n" "\<not> overflows n"
  shows "floor_to x n = Some (x div int n * int n)" "0 \<le> x div int n * int n"
    "x div int n * int n \<le> x"
proof -
  show "floor_to x n = Some (x div int n * int n)" using assms by (simp add: floor_to_def)
  show "0 \<le> x div int n * int n" using assms by (simp add: pos_imp_zdiv_nonneg_iff)
  have "x div int n * int n + x mod int n = x" by simp
  moreover have "0 \<le> x mod int n" using assms(2) by simp
  ultimately show "x div int n * int n \<le> x" by linarith
qed

text \<open>The regular expression on a magnitude followed by a unit.\<close>

lemma alpha_not_digit: "is_alpha c \<Longrightarrow> \<not> is_digit c"
  by (auto simp: is_alpha_def is_digit_def)

lemma match_bucket_grammar:
  assumes "ds \<noteq> []" "\<forall>c \<in> set ds. is_digit c" "us \<noteq> []" "\<forall>c \<in> set us. is_alpha c"
  shows "match_bucket (ds @ us) = Some (ds, us)"
proof -
  obtain d ds' where ds: "ds = d # ds'" using assms(1) by (cases ds) auto
  obtain u us' where us: "us = u # us'" using assms(3) by (cases us) auto
  have nd: "\<not> is_digit u" using assms(4) us alpha_not_digit by simp
  have tw: "takeWhile is_digit (ds @ us) = ds"
    using assms(2) nd us by (simp add: takeWhile_append2)
  have dw: "dropWhile is_digit (ds @ us) = us"
    using assms(2) nd us by (simp add: dropWhile_append2)
  have ta: "takeWhile is_alpha us = us"
    using assms(4) by (simp add: takeWhile_eq_all_conv)
  have tw': "takeWhile is_digit (d # (ds' @ us)) = ds"
    and dw': "dropWhile is_digit (d # (ds' @ us)) = us"
    using tw dw unfolding ds append_Cons by this+
  have "match_bucket (d # (ds' @ us)) =
      (let ds0 = takeWhile is_digit (d # (ds' @ us));
           us0 = takeWhile is_alpha (dropWhile is_digit (d # (ds' @ us)))
       in if ds0 \<noteq> [] \<and> us0 \<noteq> [] then Some (ds0, us0) else match_bucket (ds' @ us))"
    by (simp only: match_bucket.simps)
  also have "\<dots> = Some (ds, us)"
    unfolding tw' dw' ta Let_def using assms(1,3) by simp
  finally show ?thesis unfolding ds append_Cons .
qed

lemma grammar_not_live:
  assumes "ds \<noteq> []" "\<forall>c \<in> set ds. is_digit c"
  shows "ds @ us \<noteq> ''live''"
proof -
  obtain d ds' where ds: "ds = d # ds'" using assms(1) by (cases ds) auto
  have "is_digit d" using assms(2) ds by simp
  then have "d \<noteq> CHR ''l''" by (auto simp: is_digit_def)
  then show ?thesis by (simp add: ds)
qed

lemma bucket_live:
  assumes "\<bar>t\<bar> \<le> 8640000000000000"
  shows "getBucketedTimestamp tza (Some t) ''live'' = Some (t div 1000 * 1000)"
proof -
  have "setUTCSeconds (SecFromTime t) 0 (t div 1000 * 1000) = Some (t div 1000 * 1000)"
    using setUTCSeconds_floor[OF assms, of "SecFromTime t"] components_range(1)[of t]
      second_closed[of t] by simp
  then show ?thesis
    using setUTCMilliseconds_floor[OF assms] by (simp add: getBucketedTimestamp_def floored_second)
qed

lemma bucket_minute_utc:
  assumes "\<bar>t\<bar> \<le> 8640000000000000"
  shows "setUTCSeconds 0 0 (t div 1000 * 1000) = Some (t div 60000 * 60000)"
  using setUTCSeconds_floor[OF assms, of 0] components_range(1)[of t] by simp

lemma bucket_no_match:
  assumes "\<bar>t\<bar> \<le> 8640000000000000" "match_bucket tf = None" "tf \<noteq> ''live''"
      and "tza (t div 1000 * 1000) True = off" and "off mod 60000 = 0"
      and "tza (t div 60000 * 60000 + off) False = off"
  shows "getBucketedTimestamp tza (Some t) tf = Some (t div 60000 * 60000)"
proof -
  let ?b = "t div 1000 * 1000"
  let ?lt = "?b + off"
  have "60000 dvd off" using assms(5) by (simp add: dvd_eq_mod_eq_0)
  then obtain k where k: "off = k * 60000" by (auto simp: dvd_def)
  have "?lt div 60000 = ?b div 60000 + k" using k by simp
  then have "?lt div 60000 * 60000 = t div 60000 * 60000 + off"
    using k floored_second(1)[of t] by (simp add: algebra_simps)
  then have md: "MakeDate (Day ?lt) (MakeTime (HourFromTime ?lt) (MinFromTime ?lt) 0 0)
        = t div 60000 * 60000 + off"
    using date_closed[of ?lt 0 0] by simp
  have lt: "LocalTime tza ?b = ?lt"
    using assms(4) by (simp add: LocalTime_def)
  have ut: "UTC tza (t div 60000 * 60000 + off) = t div 60000 * 60000"
    using assms(6) by (simp add: UTC_def)
  have "TimeClip (t div 60000 * 60000) = Some (t div 60000 * 60000)"
    using floor_in_range[of 60000 t] assms(1)
    by (intro TimeClip_between[of "t div 60000 * 60000"]) simp_all
  then have "setSeconds tza 0 0 ?b = Some (t div 60000 * 60000)"
    unfolding setSeconds_def Let_def lt md ut .
  then show ?thesis
    using setUTCMilliseconds_floor[OF assms(1)] assms(2,3) by (simp add: getBucketedTimestamp_def)
qed

lemma bucket_unit:
  assumes "\<bar>t\<bar> \<le> 8640000000000000" "match_bucket tf = Some (ds, us)" "tf \<noteq> ''live''"
      and "n = digits_to_nat ds"
  shows "us = ''s'' \<Longrightarrow> 0 < n \<Longrightarrow> \<not> overflows n \<Longrightarrow>
           getBucketedTimestamp tza (Some t) tf =
           Some (t div 60000 * 60000 + SecFromTime t div int n * int n * 1000)"
    and "us = ''m'' \<Longrightarrow> 0 < n \<Longrightarrow> \<not> overflows n \<Longrightarrow>
           getBucketedTimestamp tza (Some t) tf =
           Some (t div 3600000 * 3600000 + MinFromTime t div int n * int n * 60000)"
    and "us = ''h'' \<Longrightarrow> 0 < n \<Longrightarrow> \<not> overflows n \<Longrightarrow>
           getBucketedTimestamp tza (Some t) tf =
           Some (t div 86400000 * 86400000 + HourFromTime t div int n * int n * 3600000)"
    and "us \<noteq> ''s'' \<Longrightarrow> us \<noteq> ''m'' \<Longrightarrow> us \<noteq> ''h'' \<Longrightarrow>
           getBucketedTimestamp tza (Some t) tf = Some (t div 60000 * 60000)"
proof -
  note b0 = setUTCMilliseconds_floor[OF assms(1)]
  note unfold = getBucketedTimestamp_def b0 assms(2,3) assms(4)[symmetric] floored_second
  {
    assume u: "us = ''s''" and n: "0 < n" "\<not> overflows n"
    note f = floor_to_bounds[OF components_range(1)[of t] n]
    show "getBucketedTimestamp tza (Some t) tf =
           Some (t div 60000 * 60000 + SecFromTime t div int n * int n * 1000)"
      using setUTCSeconds_floor[OF assms(1) f(2,3)] f(1) u by (simp add: unfold)
  }
  {
    assume u: "us = ''m''" and n: "0 < n" "\<not> overflows n"
    note f = floor_to_bounds[OF components_range(3)[of t] n]
    show "getBucketedTimestamp tza (Some t) tf =
           Some (t div 3600000 * 3600000 + MinFromTime t div int n * int n * 60000)"
      using setUTCMinutes_floor[OF assms(1) f(2,3)] f(1) u bucket_minute_utc[OF assms(1)]
      by (simp add: unfold)
  }
  {
    assume u: "us = ''h''" and n: "0 < n" "\<not> overflows n"
    note f = floor_to_bounds[OF components_range(5)[of t] n]
    have "setUTCMinutes 0 (t div 60000 * 60000) = Some (t div 3600000 * 3600000)"
      using setUTCMinutes_floor[OF assms(1), of 0] components_range(3)[of t] by simp
    then show "getBucketedTimestamp tza (Some t) tf =
           Some (t div 86400000 * 86400000 + HourFromTime t div int n * int n * 3600000)"
      using setUTCHours_floor[OF assms(1) f(2,3)] f(1) u bucket_minute_utc[OF assms(1)]
      by (simp add: unfold)
  }
  {
    assume "us \<noteq> ''s''" "us \<noteq> ''m''" "us \<noteq> ''h''"
    then show "getBucketedTimestamp tza (Some t) tf = Some (t div 60000 * 60000)"
      using bucket_minute_utc[OF assms(1)] by (simp add: unfold)
  }
qed

text \<open>
  Flooring a component to a multiple of a divisor of its range is flooring the time
  value to a multiple of the timeframe.
\<close>

lemma floor_multiple:
  fixes t u n m :: int
  assumes "0 < m" "0 < n" "n dvd m"
  shows "t div (u * m) * (u * m) + (t div u) mod m div n * n * u = t div (n * u) * (n * u)"
proof -
  define A B C where "A = t div u div m" and "B = (t div u) mod m div n"
    and "C = t div u div n"
  have 1: "t div (u * m) = A"
    unfolding A_def using assms(1) zdiv_zmult2_eq[of m t u] by simp
  have 2: "t div (n * u) = C"
    unfolding C_def using assms(2) zdiv_zmult2_eq[of n t u] by (simp add: mult.commute)
  have "A * m + B * n = C * n"
    unfolding A_def B_def C_def using floor_refine[OF assms(3,2)] .
  then have "(A * m + B * n) * u = C * n * u"
    by simp
  then have "A * (u * m) + B * n * u = C * (n * u)"
    by (simp add: algebra_simps)
  then show ?thesis
    unfolding 1 2 B_def .
qed

lemma floor_divisor:
  fixes n :: int
  assumes "0 < n"
  shows "n dvd 60 \<Longrightarrow> t div 60000 * 60000 + SecFromTime t div n * n * 1000
           = t div (n * 1000) * (n * 1000)"
    and "n dvd 60 \<Longrightarrow> t div 3600000 * 3600000 + MinFromTime t div n * n * 60000
           = t div (n * 60000) * (n * 60000)"
    and "n dvd 24 \<Longrightarrow> t div 86400000 * 86400000 + HourFromTime t div n * n * 3600000
           = t div (n * 3600000) * (n * 3600000)"
proof -
  have c: "(1000::int) * 60 = 60000" "(60000::int) * 60 = 3600000"
    "(3600000::int) * 24 = 86400000"
    by simp_all
  show "t div 60000 * 60000 + SecFromTime t div n * n * 1000 = t div (n * 1000) * (n * 1000)"
    if "n dvd 60"
    using floor_multiple[where u = 1000 and n = n and m = 60 and t = t, OF _ assms that]
    unfolding c SecFromTime_def msPerSecond_def by simp
  show "t div 3600000 * 3600000 + MinFromTime t div n * n * 60000 = t div (n * 60000) * (n * 60000)"
    if "n dvd 60"
    using floor_multiple[where u = 60000 and n = n and m = 60 and t = t, OF _ assms that]
    unfolding c MinFromTime_def msPerMinute_def by simp
  show "t div 86400000 * 86400000 + HourFromTime t div n * n * 3600000
           = t div (n * 3600000) * (n * 3600000)"
    if "n dvd 24"
    using floor_multiple[where u = 3600000 and n = n and m = 24 and t = t, OF _ assms that]
    unfolding c HourFromTime_def msPerHour_def by simp
qed

text \<open>
  C3 (as amended).  For a valid date \<open>t\<close>: \<open>"live"\<close> floors to the second.  A
  magnitude \<open>n > 0\<close> followed by \<open>s\<close>, \<open>m\<close> or \<open>h\<close> gives the start of the UTC
  minute, hour or day of \<open>t\<close> plus its seconds, minutes or hours floored to a
  multiple of \<open>n\<close>; when \<open>n\<close> divides 60, 60 or 24 this is \<open>t\<close> floored to a multiple
  of the timeframe.  A magnitude followed by letters other than \<open>s\<close>, \<open>m\<close>, \<open>h\<close>
  and \<open>d\<close> floors to the minute.  A string without a magnitude followed by letters
  floors the local time to the minute, which is \<open>t\<close> floored to the minute when the
  offset \<open>off\<close> of local time at \<open>t\<close> is a whole number of minutes and is also the
  offset that the runtime takes for the floored local time.
\<close>

theorem bucket_start:
  assumes "\<bar>t\<bar> \<le> 8640000000000000"
  shows "getBucketedTimestamp tza (Some t) ''live'' = Some (t div 1000 * 1000)
   \<and> (match_bucket tf = None \<and> tf \<noteq> ''live'' \<and> tza (t div 1000 * 1000) True = off
        \<and> off mod 60000 = 0 \<and> tza (t div 60000 * 60000 + off) False = off \<longrightarrow>
        getBucketedTimestamp tza (Some t) tf = Some (t div 60000 * 60000))
   \<and> (ds \<noteq> [] \<and> (\<forall>c \<in> set ds. is_digit c) \<and> 0 < digits_to_nat ds
        \<and> \<not> overflows (digits_to_nat ds) \<longrightarrow>
        (let n = int (digits_to_nat ds)
         in getBucketedTimestamp tza (Some t) (ds @ ''s'') =
              Some (t div 60000 * 60000 + SecFromTime t div n * n * 1000)
          \<and> getBucketedTimestamp tza (Some t) (ds @ ''m'') =
              Some (t div 3600000 * 3600000 + MinFromTime t div n * n * 60000)
          \<and> getBucketedTimestamp tza (Some t) (ds @ ''h'') =
              Some (t div 86400000 * 86400000 + HourFromTime t div n * n * 3600000)
          \<and> (n dvd 60 \<longrightarrow>
                getBucketedTimestamp tza (Some t) (ds @ ''s'') =
                  Some (t div (n * 1000) * (n * 1000))
              \<and> getBucketedTimestamp tza (Some t) (ds @ ''m'') =
                  Some (t div (n * 60000) * (n * 60000)))
          \<and> (n dvd 24 \<longrightarrow>
                getBucketedTimestamp tza (Some t) (ds @ ''h'') =
                  Some (t div (n * 3600000) * (n * 3600000)))))
   \<and> (ds \<noteq> [] \<and> (\<forall>c \<in> set ds. is_digit c) \<and> us \<noteq> [] \<and> (\<forall>c \<in> set us. is_alpha c)
        \<and> us \<notin> {''s'', ''m'', ''h'', ''d''} \<longrightarrow>
        getBucketedTimestamp tza (Some t) (ds @ us) = Some (t div 60000 * 60000))"
proof -
  have live: "getBucketedTimestamp tza (Some t) ''live'' = Some (t div 1000 * 1000)"
    by (rule bucket_live[OF assms])
  have nomatch: "match_bucket tf = None \<and> tf \<noteq> ''live'' \<and> tza (t div 1000 * 1000) True = off
        \<and> off mod 60000 = 0 \<and> tza (t div 60000 * 60000 + off) False = off \<longrightarrow>
        getBucketedTimestamp tza (Some t) tf = Some (t div 60000 * 60000)"
    by (intro impI, elim conjE) (rule bucket_no_match[OF assms]; assumption)
  have units: "(let n = int (digits_to_nat ds)
         in getBucketedTimestamp tza (Some t) (ds @ ''s'') =
              Some (t div 60000 * 60000 + SecFromTime t div n * n * 1000)
          \<and> getBucketedTimestamp tza (Some t) (ds @ ''m'') =
              Some (t div 3600000 * 3600000 + MinFromTime t div n * n * 60000)
          \<and> getBucketedTimestamp tza (Some t) (ds @ ''h'') =
              Some (t div 86400000 * 86400000 + HourFromTime t div n * n * 3600000)
          \<and> (n dvd 60 \<longrightarrow>
                getBucketedTimestamp tza (Some t) (ds @ ''s'') =
                  Some (t div (n * 1000) * (n * 1000))
              \<and> getBucketedTimestamp tza (Some t) (ds @ ''m'') =
                  Some (t div (n * 60000) * (n * 60000)))
          \<and> (n dvd 24 \<longrightarrow>
                getBucketedTimestamp tza (Some t) (ds @ ''h'') =
                  Some (t div (n * 3600000) * (n * 3600000))))"
    if d: "ds \<noteq> []" "\<forall>c \<in> set ds. is_digit c"
      and n: "0 < digits_to_nat ds" "\<not> overflows (digits_to_nat ds)"
  proof -
    have alpha: "\<forall>c \<in> set ''s''. is_alpha c" "\<forall>c \<in> set ''m''. is_alpha c"
      "\<forall>c \<in> set ''h''. is_alpha c"
      by (simp_all add: is_alpha_def)
    note nl = grammar_not_live[OF d]
    have s: "getBucketedTimestamp tza (Some t) (ds @ ''s'') =
              Some (t div 60000 * 60000
                    + SecFromTime t div int (digits_to_nat ds) * int (digits_to_nat ds) * 1000)"
      using bucket_unit(1)[OF assms match_bucket_grammar[OF d _ alpha(1)] nl refl] n by simp
    have m: "getBucketedTimestamp tza (Some t) (ds @ ''m'') =
              Some (t div 3600000 * 3600000
                    + MinFromTime t div int (digits_to_nat ds) * int (digits_to_nat ds) * 60000)"
      using bucket_unit(2)[OF assms match_bucket_grammar[OF d _ alpha(2)] nl refl] n by simp
    have h: "getBucketedTimestamp tza (Some t) (ds @ ''h'') =
              Some (t div 86400000 * 86400000
                    + HourFromTime t div int (digits_to_nat ds) * int (digits_to_nat ds) * 3600000)"
      using bucket_unit(3)[OF assms match_bucket_grammar[OF d _ alpha(3)] nl refl] n by simp
    have pos: "0 < int (digits_to_nat ds)" using n(1) by simp
    have s60: "int (digits_to_nat ds) dvd 60 \<Longrightarrow>
        getBucketedTimestamp tza (Some t) (ds @ ''s'') =
          Some (t div (int (digits_to_nat ds) * 1000) * (int (digits_to_nat ds) * 1000))"
      using s floor_divisor(1)[OF pos, of t] by simp
    have m60: "int (digits_to_nat ds) dvd 60 \<Longrightarrow>
        getBucketedTimestamp tza (Some t) (ds @ ''m'') =
          Some (t div (int (digits_to_nat ds) * 60000) * (int (digits_to_nat ds) * 60000))"
      using m floor_divisor(2)[OF pos, of t] by simp
    have h24: "int (digits_to_nat ds) dvd 24 \<Longrightarrow>
        getBucketedTimestamp tza (Some t) (ds @ ''h'') =
          Some (t div (int (digits_to_nat ds) * 3600000) * (int (digits_to_nat ds) * 3600000))"
      using h floor_divisor(3)[OF pos, of t] by simp
    show ?thesis
      unfolding Let_def by (intro conjI impI s m h s60 m60 h24)
  qed
  have other: "getBucketedTimestamp tza (Some t) (ds @ us) = Some (t div 60000 * 60000)"
    if d: "ds \<noteq> []" "\<forall>c \<in> set ds. is_digit c" and u: "us \<noteq> []" "\<forall>c \<in> set us. is_alpha c"
      and nu: "us \<notin> {''s'', ''m'', ''h'', ''d''}"
    using bucket_unit(4)[OF assms match_bucket_grammar[OF d u] grammar_not_live[OF d] refl] nu
    by simp
  show ?thesis
  proof (intro conjI)
    show "getBucketedTimestamp tza (Some t) ''live'' = Some (t div 1000 * 1000)"
      by (rule live)
  next
    show "match_bucket tf = None \<and> tf \<noteq> ''live'' \<and> tza (t div 1000 * 1000) True = off
        \<and> off mod 60000 = 0 \<and> tza (t div 60000 * 60000 + off) False = off \<longrightarrow>
        getBucketedTimestamp tza (Some t) tf = Some (t div 60000 * 60000)"
      by (rule nomatch)
  next
    show "ds \<noteq> [] \<and> (\<forall>c \<in> set ds. is_digit c) \<and> 0 < digits_to_nat ds
        \<and> \<not> overflows (digits_to_nat ds) \<longrightarrow>
        (let n = int (digits_to_nat ds)
         in getBucketedTimestamp tza (Some t) (ds @ ''s'') =
              Some (t div 60000 * 60000 + SecFromTime t div n * n * 1000)
          \<and> getBucketedTimestamp tza (Some t) (ds @ ''m'') =
              Some (t div 3600000 * 3600000 + MinFromTime t div n * n * 60000)
          \<and> getBucketedTimestamp tza (Some t) (ds @ ''h'') =
              Some (t div 86400000 * 86400000 + HourFromTime t div n * n * 3600000)
          \<and> (n dvd 60 \<longrightarrow>
                getBucketedTimestamp tza (Some t) (ds @ ''s'') =
                  Some (t div (n * 1000) * (n * 1000))
              \<and> getBucketedTimestamp tza (Some t) (ds @ ''m'') =
                  Some (t div (n * 60000) * (n * 60000)))
          \<and> (n dvd 24 \<longrightarrow>
                getBucketedTimestamp tza (Some t) (ds @ ''h'') =
                  Some (t div (n * 3600000) * (n * 3600000))))"
      using units by blast
  next
    show "ds \<noteq> [] \<and> (\<forall>c \<in> set ds. is_digit c) \<and> us \<noteq> [] \<and> (\<forall>c \<in> set us. is_alpha c)
        \<and> us \<notin> {''s'', ''m'', ''h'', ''d''} \<longrightarrow>
        getBucketedTimestamp tza (Some t) (ds @ us) = Some (t div 60000 * 60000)"
      using other by blast
  qed
qed

lemma example_buckets:
  "getBucketedTimestamp no_offset (Some 1704112496789) ''live'' = Some 1704112496000"
  "getBucketedTimestamp no_offset (Some 1704112496789) ''foo'' = Some 1704112440000"
  "getBucketedTimestamp no_offset (Some 1704112496789) ''5m'' = Some 1704112200000"
  "getBucketedTimestamp no_offset (Some 1704112496789) ''5min'' = Some 1704112440000"
  "getBucketedTimestamp no_offset (Some 1704112496789) ''1d'' = Some 1704112440000"
  "getBucketedTimestamp no_offset (Some 1704112496789) ''90s'' = Some 1704112440000"
  by (simp_all add: bucket_defs)

theorem bucket_start_witness:
  "\<bar>1704112496789\<bar> \<le> (8640000000000000::int)
   \<and> getBucketedTimestamp no_offset (Some 1704112496789) ''live'' = Some 1704112496000
   \<and> match_bucket ''foo'' = None \<and> ''foo'' \<noteq> ''live''
   \<and> no_offset (1704112496789 div 1000 * 1000) True = 0 \<and> (0::int) mod 60000 = 0
   \<and> no_offset (1704112496789 div 60000 * 60000 + 0) False = 0
   \<and> getBucketedTimestamp no_offset (Some 1704112496789) ''foo'' = Some 1704112440000
   \<and> new_york (1704112496789 div 1000 * 1000) True = - 18000000
   \<and> (- 18000000::int) mod 60000 = 0
   \<and> new_york (1704112496789 div 60000 * 60000 + - 18000000) False = - 18000000
   \<and> getBucketedTimestamp new_york (Some 1704112496789) ''foo'' = Some 1704112440000
   \<and> ''5'' \<noteq> [] \<and> is_digit CHR ''5'' \<and> 0 < digits_to_nat ''5''
   \<and> \<not> overflows (digits_to_nat ''5'')
   \<and> int (digits_to_nat ''5'') dvd 60
   \<and> getBucketedTimestamp no_offset (Some 1704112496789) ''5m'' = Some 1704112200000
   \<and> ''min'' \<noteq> [] \<and> is_alpha CHR ''m'' \<and> is_alpha CHR ''i'' \<and> is_alpha CHR ''n''
   \<and> ''min'' \<notin> {''s'', ''m'', ''h'', ''d''}
   \<and> getBucketedTimestamp no_offset (Some 1704112496789) ''5min'' = Some 1704112440000"
proof -
  have r: "\<bar>1704112496789\<bar> \<le> (8640000000000000::int)" by simp
  have d: "''5'' \<noteq> []" "\<forall>c \<in> set ''5''. is_digit c" "digits_to_nat ''5'' = 5"
    "\<not> overflows 5"
    by (simp_all add: is_digit_def digits_to_nat_def digit_val_def overflows_def)
  have u: "''min'' \<noteq> []" "\<forall>c \<in> set ''min''. is_alpha c" "''min'' \<notin> {''s'', ''m'', ''h'', ''d''}"
    by (simp_all add: is_alpha_def)
  have nm: "match_bucket ''foo'' = None" "''foo'' \<noteq> ''live''"
    by (simp_all add: is_digit_def)
  have z: "no_offset (1704112496789 div 1000 * 1000) True = 0"
    "no_offset (1704112496789 div 60000 * 60000 + 0) False = 0"
    by (simp_all add: no_offset_def)
  have ny: "new_york (1704112496789 div 1000 * 1000) True = - 18000000"
    "new_york (1704112496789 div 60000 * 60000 + - 18000000) False = - 18000000"
    by (simp_all add: new_york_def)
  note b = bucket_start[OF r, where tza = no_offset and tf = "''foo''" and off = 0
      and ds = "''5''" and us = "''min''"]
  note c = bucket_start[OF r, where tza = new_york and tf = "''foo''" and off = "- 18000000"]
  have "getBucketedTimestamp no_offset (Some 1704112496789) ''live'' = Some 1704112496000"
    using b by simp
  moreover have "getBucketedTimestamp no_offset (Some 1704112496789) ''foo''
      = Some 1704112440000"
    using b nm z by simp
  moreover have "getBucketedTimestamp new_york (Some 1704112496789) ''foo''
      = Some 1704112440000"
    using c nm ny by simp
  moreover have "getBucketedTimestamp no_offset (Some 1704112496789) ''5m''
      = Some 1704112200000"
    using b d by (simp add: Let_def MinFromTime_def msPerMinute_def)
  moreover have "getBucketedTimestamp no_offset (Some 1704112496789) ''5min''
      = Some 1704112440000"
    using b d u by simp
  ultimately show ?thesis using r d u nm z ny by simp
qed

text \<open>
  C3 as stated fails.  At 2024-01-01T12:34:56.789Z the timeframe \<open>1d\<close> gives
  12:34:00 of that day, not 00:00:00, and the timeframe \<open>90s\<close> gives 12:34:00, not
  12:34:30.
\<close>

theorem bucket_start_counterexample:
  "getBucketedTimestamp no_offset (Some 1704112496789) ''1d'' = Some 1704112440000
   \<and> timeframeToMs ''1d'' = Some 86400000
   \<and> (1704112496789::int) div 86400000 * 86400000 = 1704067200000
   \<and> getBucketedTimestamp no_offset (Some 1704112496789) ''90s'' = Some 1704112440000
   \<and> timeframeToMs ''90s'' = Some 90000
   \<and> (1704112496789::int) div 90000 * 90000 = 1704112470000"
  by (simp add: example_buckets timeframeToMs_def is_digit_def is_unit_char_def
      digits_to_nat_def digit_val_def lower_unit_def unitMap_def)

text \<open>
  Where the two offsets differ the fallback is not the minute of the instant: in New
  York at 2023-11-05T06:30:30Z, which is 01:30:30 for the second time that day, a
  string without a magnitude gives 05:30:00Z, the first 01:30:00, an hour before the
  minute of the instant.
\<close>

lemma fallback_repeated_hour:
  "getBucketedTimestamp new_york (Some 1699165830000) ''foo'' = Some 1699162200000
   \<and> (1699165830000::int) div 60000 * 60000 = 1699165800000
   \<and> new_york 1699165830000 True = - 18000000
   \<and> new_york (1699165800000 + - 18000000) False = - 14400000"
  by (simp add: bucket_defs new_york_def)

end
